theory Spec2Isabelle
  imports Complex_Main "HOL-Library.AList"
begin

section \<open>JavaScript numbers\<close>

text \<open>
  The engine computes in JavaScript numbers, i.e. IEEE-754 binary64 values. Every finite
  binary64 value is a rational, so a number is modelled as a \<^typ>\<open>rat\<close> and every arithmetic
  operation of the source as the exact operation followed by \<open>binary64\<close>, the rounding to
  the nearest representable value (ties to even). Overflow to infinity and NaN are outside the
  model; the quantities of the engine (32-bit lots, prices of at most ten digits) stay far below
  \<open>2 ^ 1024\<close>.
\<close>

function bitlen :: "int \<Rightarrow> int" where
  "bitlen n = (if n \<le> 0 then 0 else 1 + bitlen (n div 2))"
  by pat_completeness auto
termination
  by (relation "measure nat") auto

definition ilog2 :: "rat \<Rightarrow> int" where
  \<comment> \<open>\<open>\<lfloor>log\<^sub>2 x\<rfloor>\<close> for a positive rational.\<close>
  "ilog2 x = (let n = fst (quotient_of x); d = snd (quotient_of x);
                  k = bitlen n - bitlen d
              in if power_int 2 k \<le> x then k else k - 1)"

definition roundTiesToEven :: "rat \<Rightarrow> int" where
  "roundTiesToEven q = (let f = \<lfloor>q\<rfloor>; r = q - of_int f in
       if r < 1/2 then f else if 1/2 < r then f + 1 else if even f then f else f + 1)"

definition binary64 :: "rat \<Rightarrow> rat" where
  \<comment> \<open>53 significant bits; below \<open>2 powi - 1022\<close> the spacing stays that of the subnormals.\<close>
  "binary64 x = (if x = 0 then 0 else
      let e = max (ilog2 \<bar>x\<bar>) (- 1022) - 52;
          m = roundTiesToEven (\<bar>x\<bar> / power_int 2 e)
      in sgn x * of_int m * power_int 2 e)"

definition Math_round :: "rat \<Rightarrow> int" where
  \<comment> \<open>\<open>Math.round\<close>: the nearest integer, a tie going towards \<open>+\<infinity>\<close>.\<close>
  "Math_round x = \<lfloor>x + 1/2\<rfloor>"

definition Number :: "int \<Rightarrow> rat" where
  \<comment> \<open>\<open>Number(d)\<close> of a \<open>Decimal(10, 2)\<close> column value, which the model holds in cents.\<close>
  "Number cents = binary64 (of_int cents / 100)"


section \<open>Data model\<close>

datatype OrderAction = BID | OFFER

datatype OrderStatus = ACTIVE | MATCHED | CANCELLED | EXPIRED

text \<open>
  A row of the \<open>orders\<close> table (\<open>schema.prisma\<close>). The field \<open>id\<close> is called \<open>oid\<close>,
  \<open>price\<close> is the \<open>Decimal(10, 2)\<close> value in cents, \<open>createdAt\<close> is in milliseconds. The
  snapshots that the engine passes around are values of the same type.
\<close>

record order =
  oid :: string
  action :: OrderAction
  price :: int
  asset :: string
  amount :: int
  remaining :: int
  matched :: bool
  counterparty :: "string option"
  status :: OrderStatus
  userId :: string
  createdAt :: int

text \<open>
  The \<open>data\<close> of \<open>tx.trade.create\<close>; \<open>trade_price\<close> and \<open>commission\<close> are the JavaScript
  numbers handed to the store. The generated \<open>id\<close> and \<open>createdAt\<close> are left out.
\<close>

record trade =
  trade_asset :: string
  trade_price :: rat
  trade_amount :: int
  buyerOrderId :: string
  sellerOrderId :: string
  commission :: rat
  buyerId :: string
  sellerId :: string

text \<open>
  A timer handle is modelled by what it does to the engine: \<open>Some ms\<close> is a timer armed to
  fire after \<open>ms\<close> milliseconds, \<open>None\<close> is no timer or a cleared one.
\<close>

record negotiation =
  bestBid :: order
  bestOffer :: order
  turn :: OrderAction
  timeout :: "nat option"

datatype Party = BUYER | SELLER

datatype ConfirmationState = AWAITING_SMALLER | AWAITING_LARGER

text \<open>
  A pending confirmation. Its \<open>asset\<close> is called \<open>conf_asset\<close> and its \<open>timeout\<close>
  \<open>conf_timeout\<close>; \<open>createdAt\<close>, which nothing reads, is left out. The source declares
  \<open>state\<close> optional, but the one place that creates a confirmation sets it.
\<close>

record confirmation =
  confirmationKey :: string
  conf_asset :: string
  bidOrder :: order
  offerOrder :: order
  smallerParty :: Party
  smallerQuantity :: int
  largerQuantity :: int
  additionalQuantity :: int
  conf_timeout :: "nat option"
  state :: ConfirmationState
  smallerPartyResponse :: "bool option"

text \<open>What the engine reads of a row of the \<open>users\<close> table.\<close>

record user =
  username :: string
  phone :: string

datatype jsval = VStr string | VInt int | VPrice int | VNum rat | VBool bool

text \<open>
  Calls to the collaborators of the engine, in the order in which they are issued. A payload
  is the object literal of the source; its free-text \<open>message\<close>, and the identifier and
  timestamp that the store generates for a trade, are left out. A WhatsApp message is
  recorded by the phone number it is sent to and its headline.
\<close>

datatype effect =
    NotifyUser string string "(string \<times> jsval) list"
  | BroadcastMarketUpdate "(string \<times> jsval) list"
  | WhatsApp string string
  | RedisPublish string "(string \<times> jsval) list"
  | UpdateOrderBookInRedis string

datatype redis_value = RBool bool | RTime int

record engine =
  negotiationState :: "string \<rightharpoonup> negotiation"
  pendingConfirmations :: "(string \<times> confirmation) list"
  lastOrdersCache :: "order list"
  lastCacheTime :: int
  declinedPartialFills :: "string set"
  db_orders :: "string \<rightharpoonup> order"
  db_trades :: "trade list"
  db_users :: "string \<rightharpoonup> user"
  redis :: "string \<rightharpoonup> redis_value \<times> nat"
  effects :: "effect list"

definition cacheValidityMs :: int where
  "cacheValidityMs = 30000"

definition emit :: "effect list \<Rightarrow> engine \<Rightarrow> engine" where
  "emit fx e = e\<lparr>effects := effects e @ fx\<rparr>"

definition notifyUserViaWhatsApp :: "string \<Rightarrow> string \<Rightarrow> engine \<Rightarrow> engine" where
  \<comment> \<open>The message goes out when the user has a row with a phone that is not the empty string.
      Every error of the lookup and of the transport is caught; a lookup that the store rejects
      sends nothing, like a missing row.\<close>
  "notifyUserViaWhatsApp uid headline e =
     (case db_users e uid of
        None \<Rightarrow> e
      | Some u \<Rightarrow> if phone u \<noteq> [] then emit [WhatsApp (phone u) headline] e else e)"


section \<open>Snapshot cache\<close>

text \<open>
  \<open>now\<close> is \<open>Date.now()\<close>; \<open>fetched\<close> is the outcome of \<open>prisma.order.findMany\<close>, were it
  issued: \<open>None\<close> when the store rejects the query, otherwise the rows.
\<close>

definition getActiveOrders :: "int \<Rightarrow> order list option \<Rightarrow> engine \<Rightarrow> order list \<times> engine" where
  "getActiveOrders now fetched e =
     (if lastCacheTime e \<noteq> 0 \<and> now - lastCacheTime e < cacheValidityMs
      then (lastOrdersCache e, e)
      else case fetched of
             Some orders \<Rightarrow> (orders, e\<lparr>lastOrdersCache := orders, lastCacheTime := now\<rparr>)
           | None \<Rightarrow> (lastOrdersCache e, e))"

definition invalidateCache :: "engine \<Rightarrow> engine" where
  "invalidateCache e = e\<lparr>lastCacheTime := 0, lastOrdersCache := []\<rparr>"


section \<open>Trade committer\<close>

definition calculateCommission :: "rat \<Rightarrow> rat \<Rightarrow> rat" where
  "calculateCommission amt prc =
     binary64 (of_int (Math_round
       (binary64 (binary64 (binary64 (amt * prc) * binary64 (1/1000)) * 100))) / 100)"

datatype MatchType = FULL_MATCH | PARTIAL_FILL_BUYER | PARTIAL_FILL_SELLER

text \<open>
  The store rejects a number that does not fit its column: an \<open>Int\<close> column takes the 32-bit
  integers, a \<open>Decimal(10, 2)\<close> column the numbers that are below \<open>10 ^ 8\<close> in magnitude once
  rounded to two decimals. The lengths of strings and the foreign keys are taken to hold.
\<close>

definition int32 :: "int \<Rightarrow> bool" where
  "int32 n = (- 2147483648 \<le> n \<and> n \<le> 2147483647)"

definition decimal10_2 :: "rat \<Rightarrow> bool" where
  "decimal10_2 x = (\<bar>x\<bar> < 99999999995 / 1000)"

definition fitsColumns :: "order \<Rightarrow> order \<Rightarrow> bool" where
  \<comment> \<open>The numbers that \<open>executeMatch bid offer\<close> writes fit their columns.\<close>
  "fitsColumns bid offer =
     (let tradeAmount = min (remaining bid) (remaining offer)
      in int32 tradeAmount \<and> int32 (remaining bid - tradeAmount) \<and>
         int32 (remaining offer - tradeAmount) \<and> decimal10_2 (Number (price offer)) \<and>
         decimal10_2 (calculateCommission (of_int tradeAmount) (Number (price offer))))"

definition fill :: "int \<Rightarrow> string \<Rightarrow> order \<Rightarrow> order" where
  \<comment> \<open>The \<open>data\<close> of the two \<open>tx.order.update\<close> calls, applied to the stored row.\<close>
  "fill rem other row =
     row\<lparr>remaining := rem, matched := (rem = 0),
         counterparty := (if rem = 0 then Some other else None),
         status := (if rem = 0 then MATCHED else ACTIVE)\<rparr>"

definition newTrade :: "order \<Rightarrow> order \<Rightarrow> int \<Rightarrow> rat \<Rightarrow> rat \<Rightarrow> trade" where
  "newTrade bid offer tradeAmount tradePrice comm =
     \<lparr>trade_asset = asset bid, trade_price = tradePrice, trade_amount = tradeAmount,
      buyerOrderId = oid bid, sellerOrderId = oid offer, commission = comm,
      buyerId = userId bid, sellerId = userId offer\<rparr>"

definition transaction :: "order \<Rightarrow> order \<Rightarrow> trade \<Rightarrow> engine \<Rightarrow> engine option" where
  \<comment> \<open>\<open>prisma.$transaction\<close>: the trade is created, then the bid row and the offer row are
      updated. A number that does not fit its column and an update of a row that does not
      exist reject, and the transaction leaves the store as it was (\<open>None\<close>).\<close>
  "transaction bid offer t e =
     (let bidRemaining = remaining bid - trade_amount t;
          offerRemaining = remaining offer - trade_amount t
      in if \<not> (int32 (trade_amount t) \<and> decimal10_2 (trade_price t) \<and> decimal10_2 (commission t) \<and>
               int32 bidRemaining \<and> int32 offerRemaining)
         then None
         else case db_orders e (oid bid) of
           None \<Rightarrow> None
         | Some brow \<Rightarrow>
             (let db1 = (db_orders e)(oid bid \<mapsto> fill bidRemaining (userId offer) brow)
              in case db1 (oid offer) of
                   None \<Rightarrow> None
                 | Some orow \<Rightarrow>
                     Some (e\<lparr>db_trades := db_trades e @ [t],
                             db_orders := db1(oid offer \<mapsto> fill offerRemaining (userId bid) orow)\<rparr>)))"

text \<open>
  \<open>sendTradeExecutedNotification\<close> in its two parts: the realtime event, issued at the call,
  and the WhatsApp message, which goes out after the lookup of the user. Of the payload,
  \<open>originalAmount\<close> is left out: the snapshots of the matching loop are selected without
  \<open>amount\<close>.
\<close>

definition tradeExecutedEvent :: "order \<Rightarrow> trade \<Rightarrow> string \<Rightarrow> int \<Rightarrow> effect" where
  "tradeExecutedEvent ord t side remainingAmount =
     NotifyUser (userId ord) ''trade:executed''
       [(''orderId'', VStr (oid ord)), (''asset'', VStr (asset ord)),
        (''price'', VNum (trade_price t)), (''amount'', VInt (trade_amount t)),
        (''side'', VStr side), (''isFullyFilled'', VBool (remainingAmount = 0)),
        (''isPartialFill'', VBool (\<not> remainingAmount = 0)),
        (''remainingAmount'', VInt remainingAmount)]"

definition tradeExecutedMessage :: "order \<Rightarrow> int \<Rightarrow> engine \<Rightarrow> engine" where
  "tradeExecutedMessage ord remainingAmount e =
     notifyUserViaWhatsApp (userId ord)
       (if remainingAmount = 0 then ''TRADE EXECUTED COMPLETE'' else ''TRADE EXECUTED PARTIAL FILL'') e"

definition sendTradeExecutedNotification ::
  "order \<Rightarrow> trade \<Rightarrow> string \<Rightarrow> int \<Rightarrow> engine \<Rightarrow> engine" where
  "sendTradeExecutedNotification ord t side remainingAmount e =
     tradeExecutedMessage ord remainingAmount (emit [tradeExecutedEvent ord t side remainingAmount] e)"

text \<open>
  The two notifications of a trade are started together and not awaited: both realtime events
  are issued before either WhatsApp message.
\<close>

definition executeMatch :: "order \<Rightarrow> order \<Rightarrow> engine \<Rightarrow> engine" where
  "executeMatch bid offer e =
     (let tradeAmount = min (remaining bid) (remaining offer);
          tradePrice = Number (price offer);
          comm = calculateCommission (of_int tradeAmount) tradePrice;
          bidQuantity = remaining bid;
          offerQuantity = remaining offer;
          matchType = (if bidQuantity = offerQuantity then FULL_MATCH
                       else if bidQuantity < offerQuantity then PARTIAL_FILL_BUYER
                       else PARTIAL_FILL_SELLER);
          t = newTrade bid offer tradeAmount tradePrice comm;
          bidRemaining = remaining bid - tradeAmount;
          offerRemaining = remaining offer - tradeAmount
      in case transaction bid offer t e of
           None \<Rightarrow> e
         | Some e1 \<Rightarrow>
             (let e2 = invalidateCache e1;
                  e3 = emit [UpdateOrderBookInRedis (asset bid),
                             RedisPublish ''trade:executed''
                               [(''asset'', VStr (trade_asset t)), (''price'', VNum (trade_price t)),
                                (''amount'', VInt (trade_amount t)),
                                (''buyerId'', VStr (buyerId t)), (''sellerId'', VStr (sellerId t)),
                                (''bidFullyMatched'', VBool (bidRemaining = 0)),
                                (''offerFullyMatched'', VBool (offerRemaining = 0)),
                                (''bidOrderId'', VStr (oid bid)), (''offerOrderId'', VStr (oid offer)),
                                (''matchType'', VStr (case matchType of
                                     FULL_MATCH \<Rightarrow> ''FULL_MATCH''
                                   | PARTIAL_FILL_BUYER \<Rightarrow> ''PARTIAL_FILL_BUYER''
                                   | PARTIAL_FILL_SELLER \<Rightarrow> ''PARTIAL_FILL_SELLER'')),
                                (''partialFill'', VBool (matchType \<noteq> FULL_MATCH))]] e2;
                  e4 = emit [tradeExecutedEvent bid t ''buyer'' bidRemaining,
                             tradeExecutedEvent offer t ''seller'' offerRemaining] e3
              in tradeExecutedMessage offer offerRemaining
                   (tradeExecutedMessage bid bidRemaining e4)))"


section \<open>Per-asset decision\<close>

text \<open>
  \<open>Array.prototype.sort\<close> with a comparison function: a stable sort, here by insertion.
\<close>

fun insertBy :: "('a \<Rightarrow> 'a \<Rightarrow> rat) \<Rightarrow> 'a \<Rightarrow> 'a list \<Rightarrow> 'a list" where
  "insertBy cmp x [] = [x]"
| "insertBy cmp x (y # ys) = (if cmp x y \<le> 0 then x # y # ys else y # insertBy cmp x ys)"

definition sortBy :: "('a \<Rightarrow> 'a \<Rightarrow> rat) \<Rightarrow> 'a list \<Rightarrow> 'a list" where
  "sortBy cmp xs = foldr (insertBy cmp) xs []"

definition orElse :: "rat \<Rightarrow> rat \<Rightarrow> rat" where
  \<comment> \<open>\<open>x || y\<close> on numbers.\<close>
  "orElse x y = (if x \<noteq> 0 then x else y)"

definition bidCompare :: "order \<Rightarrow> order \<Rightarrow> rat" where
  "bidCompare a b =
     orElse (binary64 (Number (price b) - Number (price a))) (of_int (createdAt a - createdAt b))"

definition offerCompare :: "order \<Rightarrow> order \<Rightarrow> rat" where
  "offerCompare a b =
     orElse (binary64 (Number (price a) - Number (price b))) (of_int (createdAt a - createdAt b))"

definition sideOf :: "Party \<Rightarrow> string" where
  "sideOf p = (if p = BUYER then ''BUY'' else ''SELL'')"

definition priceMatch :: "string \<Rightarrow> order \<Rightarrow> order \<Rightarrow> engine \<Rightarrow> engine" where
  \<comment> \<open>The branch of \<open>processAssetMatching\<close> taken when the two best prices are equal.\<close>
  "priceMatch a bBid bOffer e =
     (let bidQuantity = remaining bBid; offerQuantity = remaining bOffer
      in if bidQuantity \<noteq> offerQuantity
         then (let smallerQ = min bidQuantity offerQuantity;
                   largerQ = max bidQuantity offerQuantity;
                   additionalQ = largerQ - smallerQ;
                   sParty = (if bidQuantity < offerQuantity then BUYER else SELLER);
                   smallerOrder = (if bidQuantity < offerQuantity then bBid else bOffer);
                   largerOrder = (if bidQuantity < offerQuantity then bOffer else bBid);
                   key = a @ '':'' @ oid bBid @ '':'' @ oid bOffer
               in if map_of (pendingConfirmations e) key \<noteq> None then e
                  else if key \<in> declinedPartialFills e then e
                  else (let c = \<lparr>confirmationKey = key, conf_asset = a, bidOrder = bBid,
                                  offerOrder = bOffer, smallerParty = sParty,
                                  smallerQuantity = smallerQ, largerQuantity = largerQ,
                                  additionalQuantity = additionalQ, conf_timeout = Some 60000,
                                  state = AWAITING_SMALLER, smallerPartyResponse = None\<rparr>;
                            e1 = e\<lparr>pendingConfirmations :=
                                     AList.update key c (pendingConfirmations e)\<rparr>;
                            e2 = emit [NotifyUser (userId smallerOrder) ''quantity:confirmation_request''
                                        [(''confirmationKey'', VStr key), (''asset'', VStr a),
                                         (''yourOrderId'', VStr (oid smallerOrder)),
                                         (''counterpartyOrderId'', VStr (oid largerOrder)),
                                         (''yourQuantity'', VInt smallerQ),
                                         (''counterpartyQuantity'', VInt largerQ),
                                         (''additionalQuantity'', VInt additionalQ),
                                         (''price'', VPrice (price bBid)),
                                         (''side'', VStr (sideOf sParty))]] e1
                        in notifyUserViaWhatsApp (userId smallerOrder)
                             ''QUANTITY CONFIRMATION NEEDED'' e2))
         else executeMatch bBid bOffer e)"

definition sendCompetitiveBiddingAlerts :: "string \<Rightarrow> order \<Rightarrow> order \<Rightarrow> engine \<Rightarrow> engine" where
  \<comment> \<open>A bid price of zero makes the spread percentage infinite, which is above 20.\<close>
  "sendCompetitiveBiddingAlerts a bBid bOffer e =
     (let bidPrice = Number (price bBid); offerPrice = Number (price bOffer)
      in if bidPrice \<ge> offerPrice then e
         else (let spread = binary64 (offerPrice - bidPrice)
               in if bidPrice = 0 then e
                  else if binary64 (binary64 (spread / bidPrice) * 100) > 20 then e
                  else notifyUserViaWhatsApp (userId bOffer) ''COMPETITIVE BIDDING ALERT''
                         (notifyUserViaWhatsApp (userId bBid) ''COMPETITIVE BIDDING ALERT'' e)))"

definition turnName :: "OrderAction \<Rightarrow> string" where
  "turnName t = (if t = OFFER then ''OFFER'' else ''BID'')"

definition usernameOf :: "engine \<Rightarrow> string \<Rightarrow> string" where
  "usernameOf e uid = (case db_users e uid of None \<Rightarrow> [] | Some u \<Rightarrow> username u)"

definition notifyNegotiation :: "string \<Rightarrow> engine \<Rightarrow> engine" where
  \<comment> \<open>The snapshots carry no user, so both user names are looked up; a user without a row
      has the empty name. The lookups are taken not to be rejected.\<close>
  "notifyNegotiation a e =
     (case negotiationState e a of
        None \<Rightarrow> e
      | Some st \<Rightarrow>
          (let e1 = emit [NotifyUser
                            (if turn st = OFFER then userId (bestOffer st) else userId (bestBid st))
                            ''negotiation:your_turn''
                            [(''asset'', VStr a), (''bestBid'', VPrice (price (bestBid st))),
                             (''bestOffer'', VPrice (price (bestOffer st))),
                             (''bestBidUserId'', VStr (userId (bestBid st))),
                             (''bestOfferUserId'', VStr (userId (bestOffer st))),
                             (''bestBidUsername'', VStr (usernameOf e (userId (bestBid st)))),
                             (''bestOfferUsername'', VStr (usernameOf e (userId (bestOffer st)))),
                             (''turn'', VStr (turnName (turn st)))]] e
           in e1\<lparr>negotiationState := (negotiationState e1)(a \<mapsto> st\<lparr>timeout := Some 30000\<rparr>)\<rparr>))"

definition marketUpdate :: "string \<Rightarrow> negotiation \<Rightarrow> effect" where
  "marketUpdate a st =
     BroadcastMarketUpdate [(''asset'', VStr a), (''bestBid'', VPrice (price (bestBid st))),
                            (''bestOffer'', VPrice (price (bestOffer st)))]"

definition negotiationTimeout :: "string \<Rightarrow> engine \<Rightarrow> engine" where
  \<comment> \<open>The callback of the timer that \<open>notifyNegotiation\<close> arms; a cleared timer never fires.\<close>
  "negotiationTimeout a e =
     (case negotiationState e a of
        None \<Rightarrow> e
      | Some st \<Rightarrow>
          (if timeout st = None then e
           else (emit [marketUpdate a st] e)\<lparr>negotiationState := (negotiationState e)(a := None)\<rparr>))"

definition negotiate :: "string \<Rightarrow> order \<Rightarrow> order \<Rightarrow> engine \<Rightarrow> engine" where
  \<comment> \<open>The tail of \<open>processAssetMatching\<close>, reached when the two best prices differ.\<close>
  "negotiate a bBid bOffer e =
     (case negotiationState e a of
        None \<Rightarrow>
          notifyNegotiation a
            (e\<lparr>negotiationState := (negotiationState e)
                  (a \<mapsto> \<lparr>bestBid = bBid, bestOffer = bOffer, turn = OFFER, timeout = None\<rparr>)\<rparr>)
      | Some st \<Rightarrow>
          (let st1 = (if oid bBid \<noteq> oid (bestBid st) then st\<lparr>bestBid := bBid, turn := OFFER\<rparr> else st);
               st2 = (if oid bOffer \<noteq> oid (bestOffer st1) then st1\<lparr>bestOffer := bOffer, turn := BID\<rparr>
                      else st1);
               updated = (oid bBid \<noteq> oid (bestBid st) \<or> oid bOffer \<noteq> oid (bestOffer st))
           in if updated
              then notifyNegotiation a
                     (e\<lparr>negotiationState := (negotiationState e)(a \<mapsto> st2\<lparr>timeout := None\<rparr>)\<rparr>)
              else e))"

definition processAssetMatching :: "string \<Rightarrow> order list \<Rightarrow> engine \<Rightarrow> engine" where
  "processAssetMatching a orders e =
     (let bids = filter (\<lambda>x. action x = BID) orders;
          offers = filter (\<lambda>x. action x = OFFER) orders
      in if bids = [] \<or> offers = [] then e
         else (let bBid = hd (sortBy bidCompare bids);
                   bOffer = hd (sortBy offerCompare offers)
               in if Number (price bBid) = Number (price bOffer) then priceMatch a bBid bOffer e
                  else negotiate a bBid bOffer
                         (if Number (price bBid) < Number (price bOffer)
                          then sendCompetitiveBiddingAlerts a bBid bOffer e else e)))"


section \<open>Matching loop\<close>

text \<open>
  The orders are grouped in a plain object keyed by asset. A key that names a member of
  \<open>Object.prototype\<close> finds that member instead of a group, and the \<open>push\<close> on it throws. The
  entries of the object come with the array indices first, in ascending order, then the
  other keys in the order of their insertion.
\<close>

definition objectPrototypeNames :: "string list" where
  "objectPrototypeNames =
     [''constructor'', ''__defineGetter__'', ''__defineSetter__'', ''hasOwnProperty'',
      ''__lookupGetter__'', ''__lookupSetter__'', ''isPrototypeOf'', ''propertyIsEnumerable'',
      ''toString'', ''valueOf'', ''__proto__'', ''toLocaleString'']"

definition isDigit :: "char \<Rightarrow> bool" where
  "isDigit c = (48 \<le> (of_char c :: nat) \<and> (of_char c :: nat) \<le> 57)"

definition decimalValue :: "string \<Rightarrow> nat" where
  "decimalValue s = foldl (\<lambda>n c. 10 * n + (of_char c - 48)) 0 s"

definition arrayIndex :: "string \<Rightarrow> nat option" where
  \<comment> \<open>The canonical decimal numeral of an integer from \<open>0\<close> to \<open>2 ^ 32 - 2\<close>.\<close>
  "arrayIndex s =
     (if s = [] \<or> \<not> list_all isDigit s then None
      else if hd s = CHR ''0'' \<and> length s > 1 then None
      else if decimalValue s \<le> 4294967294 then Some (decimalValue s)
      else None)"

fun groupByAsset ::
  "order list \<Rightarrow> (string \<times> order list) list \<Rightarrow> (string \<times> order list) list option" where
  "groupByAsset [] acc = Some acc"
| "groupByAsset (x # xs) acc =
     (if asset x \<in> set objectPrototypeNames then None
      else groupByAsset xs
             (case map_of acc (asset x) of
                None \<Rightarrow> AList.update (asset x) [x] acc
              | Some l \<Rightarrow> AList.update (asset x) (l @ [x]) acc))"

definition indexCompare :: "string \<times> order list \<Rightarrow> string \<times> order list \<Rightarrow> rat" where
  "indexCompare a b =
     of_int (int (case arrayIndex (fst a) of Some n \<Rightarrow> n | None \<Rightarrow> 0) -
             int (case arrayIndex (fst b) of Some n \<Rightarrow> n | None \<Rightarrow> 0))"

definition objectEntries :: "(string \<times> order list) list \<Rightarrow> (string \<times> order list) list" where
  "objectEntries groups =
     sortBy indexCompare (filter (\<lambda>g. arrayIndex (fst g) \<noteq> None) groups) @
     filter (\<lambda>g. arrayIndex (fst g) = None) groups"

definition busiestFirst :: "string \<times> order list \<Rightarrow> string \<times> order list \<Rightarrow> rat" where
  "busiestFirst a b = of_int (int (length (snd b)) - int (length (snd a)))"

fun processEach :: "(string \<times> order list) list \<Rightarrow> engine \<Rightarrow> engine" where
  "processEach [] e = e"
| "processEach ((a, assetOrders) # rest) e = processEach rest (processAssetMatching a assetOrders e)"

definition processMatchingInMemory :: "order list \<Rightarrow> engine \<Rightarrow> engine option" where
  \<comment> \<open>\<open>None\<close> when the grouping throws, which it does before any asset is processed.\<close>
  "processMatchingInMemory orders e =
     (case groupByAsset orders [] of
        None \<Rightarrow> None
      | Some groups \<Rightarrow> Some (processEach (sortBy busiestFirst (objectEntries groups)) e))"

definition redisSet :: "string \<Rightarrow> redis_value \<Rightarrow> nat \<Rightarrow> engine \<Rightarrow> engine" where
  "redisSet k v ttl e = e\<lparr>redis := (redis e)(k \<mapsto> (v, ttl))\<rparr>"

definition truthy :: "(redis_value \<times> nat) option \<Rightarrow> bool" where
  "truthy r = (case r of Some (RBool b, _) \<Rightarrow> b | Some (RTime _, _) \<Rightarrow> True | None \<Rightarrow> False)"

text \<open>
  The key/value store is taken to answer: a \<open>get\<close> returns what the last \<open>set\<close> of the key
  stored, and the expiry is kept beside the value. The tick catches what the matching
  throws and ends there.
\<close>

definition matchInMemory :: "order list \<Rightarrow> engine \<Rightarrow> engine" where
  \<comment> \<open>The call of \<open>processMatchingInMemory\<close> under the handler of \<open>processMatching\<close>.\<close>
  "matchInMemory orders e = (case processMatchingInMemory orders e of None \<Rightarrow> e | Some e' \<Rightarrow> e')"

definition processMatching :: "int \<Rightarrow> order list option \<Rightarrow> engine \<Rightarrow> engine" where
  "processMatching now fetched e =
     (let e1 = redisSet ''matching:last_run'' (RTime now) 600 e;
          hasActiveOrders = truthy (redis e1 ''matching:has_active_orders'');
          activeOrders = fst (getActiveOrders now fetched e1);
          e2 = snd (getActiveOrders now fetched e1)
      in if hasActiveOrders
         then (if activeOrders = [] then e2 else matchInMemory activeOrders e2)
         else if length activeOrders > 0
              then (let e3 = redisSet ''matching:has_active_orders'' (RBool True) 300 e2
                    in if activeOrders = [] then e3 else matchInMemory activeOrders e3)
              else redisSet ''matching:has_active_orders'' (RBool False) 300 e2)"

definition markActiveOrders :: "engine \<Rightarrow> engine" where
  "markActiveOrders e = redisSet ''matching:has_active_orders'' (RBool True) 300 e"

definition processAsset :: "string \<Rightarrow> order list option \<Rightarrow> engine \<Rightarrow> engine" where
  \<comment> \<open>\<open>fetched\<close> is the outcome of the query for the active orders of the asset.\<close>
  "processAsset a fetched e =
     (case fetched of
        None \<Rightarrow> e
      | Some orders \<Rightarrow>
          if length orders < 2 then e
          else invalidateCache (processAssetMatching a orders e))"


section \<open>Negotiation responses\<close>

definition setNegotiation :: "string \<Rightarrow> negotiation \<Rightarrow> engine \<Rightarrow> engine" where
  \<comment> \<open>A write through the reference that \<open>negotiationState.get\<close> returned.\<close>
  "setNegotiation a st e = e\<lparr>negotiationState := (negotiationState e)(a \<mapsto> st)\<rparr>"

definition orderToUpdate :: "negotiation \<Rightarrow> string \<Rightarrow> order option" where
  "orderToUpdate st uid =
     (if turn st = OFFER \<and> userId (bestOffer st) = uid then Some (bestOffer st)
      else if turn st = BID \<and> userId (bestBid st) = uid then Some (bestBid st)
      else None)"

text \<open>
  \<open>newPrice\<close> is in cents, as the \<open>Decimal(10, 2)\<close> column keeps it. The function has no
  handler of its own: when \<open>prisma.order.update\<close> rejects (no such row, or a price that does
  not fit the column), it stops there and the engine stays as it is at that point.
\<close>

definition handleNegotiationResponse ::
  "string \<Rightarrow> string \<Rightarrow> bool \<Rightarrow> int option \<Rightarrow> int \<Rightarrow> order list option \<Rightarrow> engine \<Rightarrow> engine" where
  "handleNegotiationResponse a uid improved newPrice now fetched e =
     (case negotiationState e a of
        None \<Rightarrow> e
      | Some st0 \<Rightarrow>
          (let st = st0\<lparr>timeout := None\<rparr>;
               e0 = setNegotiation a st e
           in if improved \<and> newPrice \<noteq> None
              then (case (case orderToUpdate st uid of
                            None \<Rightarrow> Some e0
                          | Some ord \<Rightarrow>
                              (case db_orders e0 (oid ord) of
                                 None \<Rightarrow> None
                               | Some row \<Rightarrow>
                                   if \<not> decimal10_2 (of_int (the newPrice) / 100) then None
                                   else Some (e0\<lparr>db_orders := (db_orders e0)
                                              (oid ord \<mapsto> row\<lparr>price := the newPrice\<rparr>)\<rparr>))) of
                      None \<Rightarrow> e0
                    | Some e1 \<Rightarrow>
                        processAssetMatching a
                          (filter (\<lambda>x. asset x = a) (fst (getActiveOrders now fetched e1)))
                          (snd (getActiveOrders now fetched e1)))
              else if improved
                   then notifyNegotiation a
                          (setNegotiation a (st\<lparr>turn := (if turn st = BID then OFFER else BID)\<rparr>) e0)
                   else (emit [marketUpdate a st] e0)
                          \<lparr>negotiationState := (negotiationState e0)(a := None)\<rparr>))"


section \<open>Quantity confirmation responses\<close>

definition setConfirmation :: "string \<Rightarrow> confirmation \<Rightarrow> engine \<Rightarrow> engine" where
  \<comment> \<open>A write through the reference that \<open>pendingConfirmations.get\<close> returned.\<close>
  "setConfirmation key c e = e\<lparr>pendingConfirmations := AList.update key c (pendingConfirmations e)\<rparr>"

definition deleteConfirmation :: "string \<Rightarrow> engine \<Rightarrow> engine" where
  "deleteConfirmation key e = e\<lparr>pendingConfirmations := AList.delete key (pendingConfirmations e)\<rparr>"

definition isInt32 :: "rat \<Rightarrow> bool" where
  \<comment> \<open>A number that an \<open>Int\<close> column takes.\<close>
  "isInt32 x = (x = of_int \<lfloor>x\<rfloor> \<and> int32 \<lfloor>x\<rfloor>)"

definition smallerAccepts :: "string \<Rightarrow> confirmation \<Rightarrow> rat \<Rightarrow> engine \<Rightarrow> engine" where
  \<comment> \<open>The branch \<open>accepted && newQuantity\<close> of the state \<open>AWAITING_SMALLER\<close>. The update
      rejects a quantity that is not a 32-bit integer and a row that does not exist; the
      handler catches that.\<close>
  "smallerAccepts key c newQuantity e =
     (let target = (if smallerParty c = BUYER then oid (bidOrder c) else oid (offerOrder c))
      in if \<not> isInt32 newQuantity then e
         else case db_orders e target of
           None \<Rightarrow> e
         | Some row \<Rightarrow>
             (let e1 = e\<lparr>db_orders := (db_orders e)
                            (target \<mapsto> row\<lparr>amount := \<lfloor>newQuantity\<rfloor>,
                                           remaining := \<lfloor>newQuantity\<rfloor>\<rparr>)\<rparr>
              in case db_orders e1 (oid (bidOrder c)) of
                   None \<Rightarrow> e1
                 | Some updatedBid \<Rightarrow>
                     (case db_orders e1 (oid (offerOrder c)) of
                        None \<Rightarrow> e1
                      | Some updatedOffer \<Rightarrow>
                          executeMatch updatedBid updatedOffer (deleteConfirmation key e1))))"

definition askLarger :: "string \<Rightarrow> confirmation \<Rightarrow> engine \<Rightarrow> engine" where
  \<comment> \<open>The other branch of the state \<open>AWAITING_SMALLER\<close>.\<close>
  "askLarger key c e =
     (let c1 = c\<lparr>state := AWAITING_LARGER, conf_timeout := Some 60000\<rparr>;
          largerParty = (if smallerParty c = BUYER then SELLER else BUYER);
          largerOrder = (if smallerParty c = BUYER then offerOrder c else bidOrder c);
          e1 = setConfirmation key c1 e;
          e2 = emit [NotifyUser (userId largerOrder) ''quantity:partial_fill_approval''
                      [(''confirmationKey'', VStr key), (''asset'', VStr (conf_asset c)),
                       (''yourOrderId'', VStr (oid largerOrder)),
                       (''counterpartyOrderId'',
                          VStr (if smallerParty c = BUYER then oid (bidOrder c) else oid (offerOrder c))),
                       (''yourQuantity'', VInt (largerQuantity c)),
                       (''partialFillQuantity'', VInt (smallerQuantity c)),
                       (''price'', VPrice (price (bidOrder c))),
                       (''side'', VStr (sideOf largerParty))]] e1
      in notifyUserViaWhatsApp (userId largerOrder) ''PARTIAL FILL APPROVAL NEEDED'' e2)"

text \<open>
  \<open>newQuantity\<close> is a number, \<open>None\<close> when the argument is not given. In a condition, the
  number \<open>0\<close> counts as false. The handler catches every rejection inside it; the engine then stays as
  it is at that point.
\<close>

definition handleQuantityConfirmationResponse ::
  "string \<Rightarrow> bool \<Rightarrow> rat option \<Rightarrow> engine \<Rightarrow> engine" where
  "handleQuantityConfirmationResponse key accepted newQuantity e =
     (case map_of (pendingConfirmations e) key of
        None \<Rightarrow> e
      | Some c0 \<Rightarrow>
          (let c = c0\<lparr>conf_timeout := None\<rparr>;
               e0 = setConfirmation key c e
           in case state c of
                AWAITING_SMALLER \<Rightarrow>
                  (let c1 = c\<lparr>smallerPartyResponse := Some accepted\<rparr>;
                       e1 = setConfirmation key c1 e0
                   in if accepted \<and> newQuantity \<noteq> None \<and> newQuantity \<noteq> Some 0
                      then smallerAccepts key c1 (the newQuantity) e1
                      else askLarger key c1 e1)
              | AWAITING_LARGER \<Rightarrow>
                  (let e1 = deleteConfirmation key e0
                   in if accepted then executeMatch (bidOrder c) (offerOrder c) e1
                      else e1\<lparr>declinedPartialFills := insert key (declinedPartialFills e1)\<rparr>)))"

definition confirmationTimeout :: "string \<Rightarrow> engine \<Rightarrow> engine" where
  \<comment> \<open>The callback of a confirmation timer; a cleared timer never fires.\<close>
  "confirmationTimeout key e =
     (case map_of (pendingConfirmations e) key of
        None \<Rightarrow> e
      | Some c \<Rightarrow>
          if conf_timeout c = None then e
          else handleQuantityConfirmationResponse key False None e)"


section \<open>Lookups\<close>

definition isUserInvolved :: "confirmation \<Rightarrow> string \<Rightarrow> bool" where
  "isUserInvolved c uid =
     ((smallerParty c = BUYER \<and> userId (bidOrder c) = uid) \<or>
      (smallerParty c = SELLER \<and> userId (offerOrder c) = uid))"

definition partyName :: "Party \<Rightarrow> string" where
  "partyName p = (if p = BUYER then ''BUYER'' else ''SELLER'')"

definition getUserPendingConfirmations ::
  "string \<Rightarrow> engine \<Rightarrow> (string \<times> (string \<times> jsval) list) list" where
  "getUserPendingConfirmations uid e =
     map (\<lambda>(key, c).
            (key, [(''asset'', VStr (conf_asset c)), (''yourQuantity'', VInt (smallerQuantity c)),
                   (''availableQuantity'', VInt (largerQuantity c)),
                   (''additionalQuantity'', VInt (additionalQuantity c)),
                   (''side'', VStr (partyName (smallerParty c)))]))
         (filter (\<lambda>(key, c). isUserInvolved c uid) (pendingConfirmations e))"

definition awaitedUser :: "confirmation \<Rightarrow> string" where
  \<comment> \<open>From the specification, not from the source: the party whose response a confirmation
      awaits, the smaller one in \<open>AWAITING_SMALLER\<close> and the larger one in \<open>AWAITING_LARGER\<close>.\<close>
  "awaitedUser c =
     (case state c of
        AWAITING_SMALLER \<Rightarrow>
          (if smallerParty c = BUYER then userId (bidOrder c) else userId (offerOrder c))
      | AWAITING_LARGER \<Rightarrow>
          (if smallerParty c = BUYER then userId (offerOrder c) else userId (bidOrder c)))"


section \<open>The engine as a transition system\<close>

definition newEngine :: "(string \<rightharpoonup> order) \<Rightarrow> engine" where
  \<comment> \<open>The state that the constructor leaves, beside a store with the given orders.\<close>
  "newEngine db =
     \<lparr>negotiationState = Map.empty, pendingConfirmations = [], lastOrdersCache = [],
      lastCacheTime = 0, declinedPartialFills = {}, db_orders = db, db_trades = [],
      db_users = Map.empty, redis = Map.empty, effects = []\<rparr>"

text \<open>
  What can happen to a running engine: a tick of the loop, a call of its public methods, the
  firing of one of its timers, and a write to the orders table or to the users table by the
  rest of the backend.
  Each handler is taken as one step. In the source a handler can be suspended at an \<open>await\<close>;
  the tests and writes of \<open>pendingConfirmations\<close> and \<open>declinedPartialFills\<close> sit in blocks
  without one.
\<close>

datatype event =
    Tick int "order list option"
  | ProcessAsset string "order list option"
  | NegotiationResponse string string bool "int option" int "order list option"
  | QuantityResponse string bool "rat option"
  | ConfirmationTimeout string
  | NegotiationTimeout string
  | MarkActiveOrders
  | StoreWrite "string \<rightharpoonup> order"
  | UserWrite "string \<rightharpoonup> user"

fun step :: "engine \<Rightarrow> event \<Rightarrow> engine" where
  "step e (Tick now fetched) = processMatching now fetched e"
| "step e (ProcessAsset a fetched) = processAsset a fetched e"
| "step e (NegotiationResponse a uid improved newPrice now fetched) =
     handleNegotiationResponse a uid improved newPrice now fetched e"
| "step e (QuantityResponse key accepted newQuantity) =
     handleQuantityConfirmationResponse key accepted newQuantity e"
| "step e (ConfirmationTimeout key) = confirmationTimeout key e"
| "step e (NegotiationTimeout a) = negotiationTimeout a e"
| "step e MarkActiveOrders = markActiveOrders e"
| "step e (StoreWrite db) = e\<lparr>db_orders := db\<rparr>"
| "step e (UserWrite us) = e\<lparr>db_users := us\<rparr>"

definition run :: "engine \<Rightarrow> event list \<Rightarrow> engine" where
  "run e evs = foldl step e evs"


section \<open>Example orders\<close>

definition placed :: "string \<Rightarrow> OrderAction \<Rightarrow> int \<Rightarrow> int \<Rightarrow> string \<Rightarrow> order" where
  \<comment> \<open>An active order for \<open>GOLD\<close> as order ingestion stores it, nothing filled yet.\<close>
  "placed i act p q u =
     \<lparr>oid = i, action = act, price = p, asset = ''GOLD'', amount = q, remaining = q,
      matched = False, counterparty = None, status = ACTIVE, userId = u, createdAt = 0\<rparr>"

definition store :: "order list \<Rightarrow> (string \<rightharpoonup> order)" where
  "store rows = map_of (map (\<lambda>x. (oid x, x)) rows)"


definition book3 :: "order list" where
  \<comment> \<open>The book of scenarios 3 and 4: equal prices, 2 lots bid and 5 lots offered.\<close>
  "book3 = [placed ''B3'' BID 1000 2 ''ann'', placed ''O3'' OFFER 1000 5 ''bob'']"


definition opened3 :: engine where
  \<comment> \<open>A pass over that book: the buyer is asked whether to take the 3 additional lots.\<close>
  "opened3 = processAssetMatching ''GOLD'' book3 (newEngine (store book3))"

definition asked3 :: engine where
  \<comment> \<open>The buyer declines: the seller is asked to approve a partial fill.\<close>
  "asked3 = handleQuantityConfirmationResponse ''GOLD:B3:O3'' False None opened3"

definition book5 :: "order list" where
  \<comment> \<open>The book of scenario 5: 9.50 bid, 10.00 offered.\<close>
  "book5 = [placed ''B4'' BID 950 1 ''ann'', placed ''O4'' OFFER 1000 1 ''bob'']"

definition negotiating5 :: engine where
  "negotiating5 = processAssetMatching ''GOLD'' book5 (newEngine (store book5))"

definition crossed :: "order list" where
  \<comment> \<open>A crossing book: 10.00 bid, 9.00 offered.\<close>
  "crossed = [placed ''B5'' BID 1000 1 ''ann'', placed ''O5'' OFFER 900 1 ''bob'']"


definition phones :: "string \<rightharpoonup> user" where
  "phones = [''ann'' \<mapsto> \<lparr>username = ''ann'', phone = ''+15550001''\<rparr>,
             ''bob'' \<mapsto> \<lparr>username = ''bob'', phone = ''+15550002''\<rparr>]"

definition lateBid :: order where
  \<comment> \<open>A bid above the offer of \<open>book3\<close>, placed while the confirmation is pending.\<close>
  "lateBid = placed ''B7'' BID 1050 5 ''cat''"

definition refill :: "event list" where
  \<comment> \<open>The confirmation of \<open>book3\<close> opens; the late bid arrives and a negotiation starts, in
      which bob raises his offer to 10.50, so that the late bid takes all 5 lots of it; then
      ann declines the additional lots.\<close>
  "refill =
     [ProcessAsset ''GOLD'' (Some book3),
      StoreWrite (store (lateBid # book3)),
      ProcessAsset ''GOLD'' (Some (lateBid # book3)),
      NegotiationResponse ''GOLD'' ''bob'' True (Some 1050) 5000
        (Some [lateBid, placed ''O3'' OFFER 1050 5 ''bob'', placed ''B3'' BID 1000 2 ''ann'']),
      QuantityResponse ''GOLD:B3:O3'' False None]"


section \<open>Declined pairs stay closed\<close>

definition declinedClosed :: "engine \<Rightarrow> bool" where
  \<comment> \<open>No declined key has a pending confirmation.\<close>
  "declinedClosed e =
     (\<forall>k. k \<in> declinedPartialFills e \<longrightarrow> map_of (pendingConfirmations e) k = None)"


section \<open>What the helpers leave alone\<close>

lemma emit_fields [simp]:
  "negotiationState (emit fx e) = negotiationState e"
  "pendingConfirmations (emit fx e) = pendingConfirmations e"
  "lastOrdersCache (emit fx e) = lastOrdersCache e"
  "lastCacheTime (emit fx e) = lastCacheTime e"
  "declinedPartialFills (emit fx e) = declinedPartialFills e"
  "db_orders (emit fx e) = db_orders e"
  "db_trades (emit fx e) = db_trades e"
  "db_users (emit fx e) = db_users e"
  "redis (emit fx e) = redis e"
  by (simp_all add: emit_def)

lemma notifyUserViaWhatsApp_fields [simp]:
  "negotiationState (notifyUserViaWhatsApp u h e) = negotiationState e"
  "pendingConfirmations (notifyUserViaWhatsApp u h e) = pendingConfirmations e"
  "lastOrdersCache (notifyUserViaWhatsApp u h e) = lastOrdersCache e"
  "lastCacheTime (notifyUserViaWhatsApp u h e) = lastCacheTime e"
  "declinedPartialFills (notifyUserViaWhatsApp u h e) = declinedPartialFills e"
  "db_orders (notifyUserViaWhatsApp u h e) = db_orders e"
  "db_trades (notifyUserViaWhatsApp u h e) = db_trades e"
  "db_users (notifyUserViaWhatsApp u h e) = db_users e"
  "redis (notifyUserViaWhatsApp u h e) = redis e"
  by (simp_all add: notifyUserViaWhatsApp_def split: option.splits)

lemma tradeExecutedMessage_fields [simp]:
  "negotiationState (tradeExecutedMessage ord r e) = negotiationState e"
  "pendingConfirmations (tradeExecutedMessage ord r e) = pendingConfirmations e"
  "lastOrdersCache (tradeExecutedMessage ord r e) = lastOrdersCache e"
  "lastCacheTime (tradeExecutedMessage ord r e) = lastCacheTime e"
  "declinedPartialFills (tradeExecutedMessage ord r e) = declinedPartialFills e"
  "db_orders (tradeExecutedMessage ord r e) = db_orders e"
  "db_trades (tradeExecutedMessage ord r e) = db_trades e"
  "db_users (tradeExecutedMessage ord r e) = db_users e"
  "redis (tradeExecutedMessage ord r e) = redis e"
  by (simp_all add: tradeExecutedMessage_def)

lemma invalidateCache_fields [simp]:
  "negotiationState (invalidateCache e) = negotiationState e"
  "pendingConfirmations (invalidateCache e) = pendingConfirmations e"
  "lastOrdersCache (invalidateCache e) = []"
  "lastCacheTime (invalidateCache e) = 0"
  "declinedPartialFills (invalidateCache e) = declinedPartialFills e"
  "db_orders (invalidateCache e) = db_orders e"
  "db_trades (invalidateCache e) = db_trades e"
  "db_users (invalidateCache e) = db_users e"
  "redis (invalidateCache e) = redis e"
  by (simp_all add: invalidateCache_def)


section \<open>Trade committer: amounts, price and order status\<close>

lemma transaction_fields:
  assumes "transaction bid offer t e = Some e1"
  shows "negotiationState e1 = negotiationState e"
    and "pendingConfirmations e1 = pendingConfirmations e"
    and "declinedPartialFills e1 = declinedPartialFills e"
    and "db_users e1 = db_users e"
    and "redis e1 = redis e"
  using assms by (auto simp: transaction_def Let_def split: option.splits if_splits)

lemma executeMatch_fields [simp]:
  "negotiationState (executeMatch bid offer e) = negotiationState e"
  "pendingConfirmations (executeMatch bid offer e) = pendingConfirmations e"
  "declinedPartialFills (executeMatch bid offer e) = declinedPartialFills e"
  "db_users (executeMatch bid offer e) = db_users e"
  "redis (executeMatch bid offer e) = redis e"
  by (simp_all add: executeMatch_def Let_def transaction_fields split: option.splits)

lemma executeMatch_trades:
  "db_trades (executeMatch bid offer e) =
     (if fitsColumns bid offer \<and> db_orders e (oid bid) \<noteq> None \<and> db_orders e (oid offer) \<noteq> None
      then db_trades e @
             [newTrade bid offer (min (remaining bid) (remaining offer)) (Number (price offer))
                (calculateCommission (of_int (min (remaining bid) (remaining offer)))
                   (Number (price offer)))]
      else db_trades e)"
  by (auto simp: executeMatch_def transaction_def fitsColumns_def newTrade_def Let_def
           split: option.splits)

lemma executeMatch_rows:
  assumes "fitsColumns bid offer"
    and "db_orders e (oid bid) = Some brow" and "db_orders e (oid offer) = Some orow"
    and "oid bid \<noteq> oid offer"
  shows "db_orders (executeMatch bid offer e) =
           (db_orders e)
             (oid bid \<mapsto> fill (remaining bid - min (remaining bid) (remaining offer)) (userId offer) brow,
              oid offer \<mapsto> fill (remaining offer - min (remaining bid) (remaining offer)) (userId bid) orow)"
  using assms
  by (simp add: executeMatch_def transaction_def fitsColumns_def newTrade_def Let_def)



section \<open>Evaluation on concrete books\<close>

lemma Number_1000: "Number 1000 = 10"
  by code_simp

lemma Number_900: "Number 900 = 9"
  by code_simp

lemma Number_950: "Number 950 = 19 / 2"
  by code_simp

lemma Number_1050: "Number 1050 = 21 / 2"
  by code_simp

lemma Number_2300: "Number 2300 = 23"
  by code_simp

lemma binary64_minus_half: "binary64 (- (1 / 2)) = - (1 / 2)"
  by code_simp

lemma decimal10_2_small: "\<bar>x\<bar> < 1000 \<Longrightarrow> decimal10_2 x"
  by (simp add: decimal10_2_def)

lemma commissions_fit:
  "decimal10_2 (calculateCommission 2 10)"
  "decimal10_2 (calculateCommission 5 10)"
  "decimal10_2 (calculateCommission 5 (21 / 2))"
  "decimal10_2 (calculateCommission 45 23)"
  by code_simp+

lemmas engine_defs =
  processMatching_def matchInMemory_def processMatchingInMemory_def objectEntries_def
  arrayIndex_def isDigit_def objectPrototypeNames_def processAssetMatching_def priceMatch_def
  negotiate_def notifyNegotiation_def usernameOf_def executeMatch_def fitsColumns_def int32_def
  transaction_def newTrade_def fill_def tradeExecutedEvent_def tradeExecutedMessage_def
  notifyUserViaWhatsApp_def emit_def invalidateCache_def getActiveOrders_def
  cacheValidityMs_def redisSet_def truthy_def handleQuantityConfirmationResponse_def
  smallerAccepts_def isInt32_def askLarger_def setConfirmation_def deleteConfirmation_def
  confirmationTimeout_def handleNegotiationResponse_def setNegotiation_def orderToUpdate_def
  marketUpdate_def negotiationTimeout_def processAsset_def markActiveOrders_def
  sortBy_def orElse_def bidCompare_def offerCompare_def busiestFirst_def
  newEngine_def placed_def store_def run_def book3_def book5_def crossed_def lateBid_def
  refill_def Let_def
  Number_1000 Number_900 Number_950 Number_1050 Number_2300 binary64_minus_half
  decimal10_2_small commissions_fit





section \<open>Commission\<close>

text \<open>
  Well-known values: the doubles nearest to \<open>0.1\<close> and to \<open>0.001\<close>, and the integers around
  \<open>2 ^ 53\<close>, where every second one is representable.
\<close>

lemma binary64_tenth: "binary64 (1 / 10) = 3602879701896397 / 2 ^ 55"
  by code_simp

lemma binary64_thousandth: "binary64 (1 / 1000) = 1152921504606847 / 2 ^ 60"
  by code_simp

lemma binary64_ties_to_even:
  "binary64 (2 ^ 53 + 1) = 2 ^ 53 \<and> binary64 (2 ^ 53 + 3) = 2 ^ 53 + 4 \<and> binary64 23 = 23"
  by code_simp

text \<open>
  C9. For 45 lots at 23.00 the product \<open>amount \<cdot> price \<cdot> 0.001\<close> is \<open>1.035\<close>, a hundred
  times which is \<open>103.5\<close>: rounded to the nearest integer (the tie upwards, or to the even
  neighbour) that is \<open>104\<close>, a commission of \<open>1.04\<close>. In binary64 the product
  \<open>1035 * 0.001\<close> falls just below \<open>1.035\<close>, its hundredfold is \<open>103.49999999999999\<close>, and
  \<open>calculateCommission\<close> returns \<open>1.03\<close>.
\<close>

theorem calculateCommission_tie:
  "calculateCommission 45 (Number 2300) = binary64 (103 / 100) \<and>
   calculateCommission 45 (Number 2300) \<noteq> binary64 (104 / 100) \<and>
   binary64 (binary64 (binary64 (45 * Number 2300) * binary64 (1 / 1000)) * 100)
     = 7283165022388223 / 70368744177664 \<and>
   45 * (2300 / 100) * (1 / 1000) * 100 = (207 / 2 :: rat) \<and>
   Math_round (207 / 2) = 104 \<and>
   map commission
     (db_trades (executeMatch (placed ''B9'' BID 2300 45 ''ann'') (placed ''O9'' OFFER 2300 45 ''bob'')
        (newEngine (store [placed ''B9'' BID 2300 45 ''ann'', placed ''O9'' OFFER 2300 45 ''bob'']))))
     = [binary64 (103 / 100)]"
proof -
  have numbers:
    "calculateCommission 45 (Number 2300) = binary64 (103 / 100) \<and>
     calculateCommission 45 (Number 2300) \<noteq> binary64 (104 / 100) \<and>
     binary64 (binary64 (binary64 (45 * Number 2300) * binary64 (1 / 1000)) * 100)
       = 7283165022388223 / 70368744177664 \<and>
     45 * (2300 / 100) * (1 / 1000) * 100 = (207 / 2 :: rat) \<and>
     Math_round (207 / 2) = 104"
    by code_simp
  have "map commission
     (db_trades (executeMatch (placed ''B9'' BID 2300 45 ''ann'') (placed ''O9'' OFFER 2300 45 ''bob'')
        (newEngine (store [placed ''B9'' BID 2300 45 ''ann'', placed ''O9'' OFFER 2300 45 ''bob'']))))
     = [calculateCommission 45 23]"
    by (simp add: engine_defs)
  with numbers show ?thesis
    by (simp add: Number_2300)
qed


section \<open>Snapshot cache\<close>

text \<open>
  C7, as stated, fails after an invalidation: a load that fetched one order, then
  \<open>invalidateCache\<close>, then a load whose query fails. The failed load returns the empty
  vector, not the vector most recently fetched.
\<close>

theorem getActiveOrders_invalidated_counterexample:
  "fst (getActiveOrders 1000 (Some [placed ''B1'' BID 1000 5 ''ann'']) (newEngine Map.empty))
     = [placed ''B1'' BID 1000 5 ''ann''] \<and>
   fst (getActiveOrders 2000 None (invalidateCache
         (snd (getActiveOrders 1000 (Some [placed ''B1'' BID 1000 5 ''ann'']) (newEngine Map.empty)))))
     \<noteq> [placed ''B1'' BID 1000 5 ''ann'']"
  by (simp add: getActiveOrders_def invalidateCache_def newEngine_def cacheValidityMs_def)

text \<open>
  C7, amended. A load whose query fails returns the vector that the cache holds and leaves
  the cache as it is. Within the validity window of 30 seconds the held vector is returned
  whatever the store would answer. The held vector is the one most recently fetched, until
  \<open>invalidateCache\<close> replaces it by the empty vector and resets the fetch time.
\<close>

theorem getActiveOrders_held_cache:
  "getActiveOrders now None e = (lastOrdersCache e, e) \<and>
   (lastCacheTime e \<noteq> 0 \<and> now - lastCacheTime e < 30000 \<longrightarrow>
      getActiveOrders now fetched e = (lastOrdersCache e, e)) \<and>
   lastOrdersCache (snd (getActiveOrders now (Some rows) e)) =
     (if lastCacheTime e \<noteq> 0 \<and> now - lastCacheTime e < 30000 then lastOrdersCache e else rows) \<and>
   lastOrdersCache (invalidateCache e) = [] \<and> lastCacheTime (invalidateCache e) = 0"
  by (simp add: getActiveOrders_def invalidateCache_def cacheValidityMs_def)

theorem getActiveOrders_held_cache_witness:
  "getActiveOrders 2000 None
     ((newEngine Map.empty)\<lparr>lastOrdersCache := [placed ''B1'' BID 1000 5 ''ann''], lastCacheTime := 1000\<rparr>)
     = ([placed ''B1'' BID 1000 5 ''ann''],
        (newEngine Map.empty)\<lparr>lastOrdersCache := [placed ''B1'' BID 1000 5 ''ann''], lastCacheTime := 1000\<rparr>) \<and>
   getActiveOrders 2000 (Some [])
     ((newEngine Map.empty)\<lparr>lastOrdersCache := [placed ''B1'' BID 1000 5 ''ann''], lastCacheTime := 1000\<rparr>)
     = ([placed ''B1'' BID 1000 5 ''ann''],
        (newEngine Map.empty)\<lparr>lastOrdersCache := [placed ''B1'' BID 1000 5 ''ann''], lastCacheTime := 1000\<rparr>)"
  using getActiveOrders_held_cache [of 2000
      "(newEngine Map.empty)\<lparr>lastOrdersCache := [placed ''B1'' BID 1000 5 ''ann''], lastCacheTime := 1000\<rparr>"
      "Some []" "[]"]
  by simp


section \<open>What the engine leaves alone\<close>

lemma redisSet_fields [simp]:
  "negotiationState (redisSet k v ttl e) = negotiationState e"
  "pendingConfirmations (redisSet k v ttl e) = pendingConfirmations e"
  "lastOrdersCache (redisSet k v ttl e) = lastOrdersCache e"
  "lastCacheTime (redisSet k v ttl e) = lastCacheTime e"
  "declinedPartialFills (redisSet k v ttl e) = declinedPartialFills e"
  "db_orders (redisSet k v ttl e) = db_orders e"
  "db_trades (redisSet k v ttl e) = db_trades e"
  "effects (redisSet k v ttl e) = effects e"
  by (simp_all add: redisSet_def)

lemma getActiveOrders_fields [simp]:
  "negotiationState (snd (getActiveOrders now fetched e)) = negotiationState e"
  "pendingConfirmations (snd (getActiveOrders now fetched e)) = pendingConfirmations e"
  "declinedPartialFills (snd (getActiveOrders now fetched e)) = declinedPartialFills e"
  "db_orders (snd (getActiveOrders now fetched e)) = db_orders e"
  "db_trades (snd (getActiveOrders now fetched e)) = db_trades e"
  "redis (snd (getActiveOrders now fetched e)) = redis e"
  "effects (snd (getActiveOrders now fetched e)) = effects e"
  by (simp_all add: getActiveOrders_def split: option.splits)

lemma sendCompetitiveBiddingAlerts_fields [simp]:
  "negotiationState (sendCompetitiveBiddingAlerts a b o' e) = negotiationState e"
  "pendingConfirmations (sendCompetitiveBiddingAlerts a b o' e) = pendingConfirmations e"
  "declinedPartialFills (sendCompetitiveBiddingAlerts a b o' e) = declinedPartialFills e"
  "db_orders (sendCompetitiveBiddingAlerts a b o' e) = db_orders e"
  "db_trades (sendCompetitiveBiddingAlerts a b o' e) = db_trades e"
  "redis (sendCompetitiveBiddingAlerts a b o' e) = redis e"
  by (simp_all add: sendCompetitiveBiddingAlerts_def Let_def)

lemma notifyNegotiation_fields [simp]:
  "pendingConfirmations (notifyNegotiation a e) = pendingConfirmations e"
  "declinedPartialFills (notifyNegotiation a e) = declinedPartialFills e"
  "db_orders (notifyNegotiation a e) = db_orders e"
  "db_trades (notifyNegotiation a e) = db_trades e"
  "redis (notifyNegotiation a e) = redis e"
  by (simp_all add: notifyNegotiation_def Let_def split: option.splits)

lemma negotiate_fields [simp]:
  "pendingConfirmations (negotiate a b o' e) = pendingConfirmations e"
  "declinedPartialFills (negotiate a b o' e) = declinedPartialFills e"
  "db_orders (negotiate a b o' e) = db_orders e"
  "db_trades (negotiate a b o' e) = db_trades e"
  "redis (negotiate a b o' e) = redis e"
  by (simp_all add: negotiate_def Let_def split: option.splits)

lemma negotiationTimeout_fields [simp]:
  "pendingConfirmations (negotiationTimeout a e) = pendingConfirmations e"
  "declinedPartialFills (negotiationTimeout a e) = declinedPartialFills e"
  by (simp_all add: negotiationTimeout_def split: option.splits)

lemma priceMatch_fields [simp]:
  "declinedPartialFills (priceMatch a b o' e) = declinedPartialFills e"
  "negotiationState (priceMatch a b o' e) = negotiationState e"
  "redis (priceMatch a b o' e) = redis e"
  by (simp_all add: priceMatch_def Let_def)

lemma priceMatch_pending:
  "k \<in> declinedPartialFills e \<Longrightarrow>
   map_of (pendingConfirmations (priceMatch a b o' e)) k = map_of (pendingConfirmations e) k"
  by (auto simp: priceMatch_def Let_def update_conv')

lemma processAssetMatching_fields [simp]:
  "declinedPartialFills (processAssetMatching a orders e) = declinedPartialFills e"
  "redis (processAssetMatching a orders e) = redis e"
  by (simp_all add: processAssetMatching_def Let_def)

lemma processAssetMatching_pending:
  "k \<in> declinedPartialFills e \<Longrightarrow>
   map_of (pendingConfirmations (processAssetMatching a orders e)) k = map_of (pendingConfirmations e) k"
  by (simp add: processAssetMatching_def Let_def priceMatch_pending)

lemma processEach_fields [simp]:
  "declinedPartialFills (processEach groups e) = declinedPartialFills e"
  "redis (processEach groups e) = redis e"
  by (induction groups e rule: processEach.induct) simp_all

lemma processEach_pending:
  "k \<in> declinedPartialFills e \<Longrightarrow>
   map_of (pendingConfirmations (processEach groups e)) k = map_of (pendingConfirmations e) k"
  by (induction groups e rule: processEach.induct) (simp_all add: processAssetMatching_pending)

lemma matchInMemory_fields [simp]:
  "declinedPartialFills (matchInMemory orders e) = declinedPartialFills e"
  "redis (matchInMemory orders e) = redis e"
  by (simp_all add: matchInMemory_def processMatchingInMemory_def split: option.splits)

lemma matchInMemory_pending:
  "k \<in> declinedPartialFills e \<Longrightarrow>
   map_of (pendingConfirmations (matchInMemory orders e)) k = map_of (pendingConfirmations e) k"
  by (simp add: matchInMemory_def processMatchingInMemory_def processEach_pending
        split: option.splits)

lemma processMatching_declined [simp]:
  "declinedPartialFills (processMatching now fetched e) = declinedPartialFills e"
  by (simp add: processMatching_def Let_def)

lemma processMatching_pending:
  "k \<in> declinedPartialFills e \<Longrightarrow>
   map_of (pendingConfirmations (processMatching now fetched e)) k = map_of (pendingConfirmations e) k"
  by (simp add: processMatching_def Let_def matchInMemory_pending)

lemma processAsset_declined [simp]:
  "declinedPartialFills (processAsset a fetched e) = declinedPartialFills e"
  by (simp add: processAsset_def split: option.splits)

lemma processAsset_pending:
  "k \<in> declinedPartialFills e \<Longrightarrow>
   map_of (pendingConfirmations (processAsset a fetched e)) k = map_of (pendingConfirmations e) k"
  by (simp add: processAsset_def processAssetMatching_pending split: option.splits)

lemma setNegotiation_fields [simp]:
  "pendingConfirmations (setNegotiation a st e) = pendingConfirmations e"
  "declinedPartialFills (setNegotiation a st e) = declinedPartialFills e"
  "db_orders (setNegotiation a st e) = db_orders e"
  "db_trades (setNegotiation a st e) = db_trades e"
  "negotiationState (setNegotiation a st e) = (negotiationState e)(a \<mapsto> st)"
  by (simp_all add: setNegotiation_def)

lemma handleNegotiationResponse_declined [simp]:
  "declinedPartialFills (handleNegotiationResponse a uid improved newPrice now fetched e)
     = declinedPartialFills e"
  by (simp add: handleNegotiationResponse_def Let_def split: option.splits)

lemma handleNegotiationResponse_pending:
  "k \<in> declinedPartialFills e \<Longrightarrow>
   map_of (pendingConfirmations (handleNegotiationResponse a uid improved newPrice now fetched e)) k
     = map_of (pendingConfirmations e) k"
  by (auto simp: handleNegotiationResponse_def Let_def processAssetMatching_pending
           split: option.splits)

lemma setConfirmation_fields [simp]:
  "pendingConfirmations (setConfirmation k c e) = AList.update k c (pendingConfirmations e)"
  "declinedPartialFills (setConfirmation k c e) = declinedPartialFills e"
  "negotiationState (setConfirmation k c e) = negotiationState e"
  "db_orders (setConfirmation k c e) = db_orders e"
  "db_trades (setConfirmation k c e) = db_trades e"
  "redis (setConfirmation k c e) = redis e"
  "effects (setConfirmation k c e) = effects e"
  "lastOrdersCache (setConfirmation k c e) = lastOrdersCache e"
  "lastCacheTime (setConfirmation k c e) = lastCacheTime e"
  by (simp_all add: setConfirmation_def)

lemma deleteConfirmation_fields [simp]:
  "pendingConfirmations (deleteConfirmation k e) = AList.delete k (pendingConfirmations e)"
  "declinedPartialFills (deleteConfirmation k e) = declinedPartialFills e"
  "negotiationState (deleteConfirmation k e) = negotiationState e"
  "db_orders (deleteConfirmation k e) = db_orders e"
  "db_trades (deleteConfirmation k e) = db_trades e"
  "redis (deleteConfirmation k e) = redis e"
  "effects (deleteConfirmation k e) = effects e"
  "lastOrdersCache (deleteConfirmation k e) = lastOrdersCache e"
  "lastCacheTime (deleteConfirmation k e) = lastCacheTime e"
  by (simp_all add: deleteConfirmation_def)

lemma smallerAccepts_declined [simp]:
  "declinedPartialFills (smallerAccepts key c q e) = declinedPartialFills e"
  by (simp add: smallerAccepts_def Let_def split: option.splits)

lemma smallerAccepts_pending:
  "k \<noteq> key \<Longrightarrow>
   map_of (pendingConfirmations (smallerAccepts key c q e)) k = map_of (pendingConfirmations e) k"
  by (simp add: smallerAccepts_def Let_def delete_conv' split: option.splits)

lemma askLarger_declined [simp]:
  "declinedPartialFills (askLarger key c e) = declinedPartialFills e"
  by (simp add: askLarger_def Let_def)

lemma askLarger_pending:
  "map_of (pendingConfirmations (askLarger key c e)) =
     (map_of (pendingConfirmations e))(key \<mapsto> c\<lparr>state := AWAITING_LARGER, conf_timeout := Some 60000\<rparr>)"
  by (simp add: askLarger_def Let_def update_conv')


section \<open>Declined pairs\<close>

lemma handleQuantityConfirmationResponse_declined:
  "k \<in> declinedPartialFills e \<Longrightarrow>
   k \<in> declinedPartialFills (handleQuantityConfirmationResponse key acc q e)"
  by (auto simp: handleQuantityConfirmationResponse_def Let_def
           split: option.splits ConfirmationState.splits)

lemma handleQuantityConfirmationResponse_smaller_declined:
  "map_of (pendingConfirmations e) key = Some c \<Longrightarrow> state c = AWAITING_SMALLER \<Longrightarrow>
   declinedPartialFills (handleQuantityConfirmationResponse key acc q e) = declinedPartialFills e"
  by (simp add: handleQuantityConfirmationResponse_def Let_def)

lemma handleQuantityConfirmationResponse_smaller_pending:
  "map_of (pendingConfirmations e) key = Some c \<Longrightarrow> state c = AWAITING_SMALLER \<Longrightarrow> k \<noteq> key \<Longrightarrow>
   map_of (pendingConfirmations (handleQuantityConfirmationResponse key acc q e)) k
     = map_of (pendingConfirmations e) k"
  by (simp add: handleQuantityConfirmationResponse_def Let_def smallerAccepts_pending
        askLarger_pending update_conv')

lemma handleQuantityConfirmationResponse_larger_pending:
  "map_of (pendingConfirmations e) key = Some c \<Longrightarrow> state c = AWAITING_LARGER \<Longrightarrow>
   map_of (pendingConfirmations (handleQuantityConfirmationResponse key acc q e))
     = (map_of (pendingConfirmations e))(key := None)"
  by (simp add: handleQuantityConfirmationResponse_def Let_def delete_conv' update_conv')

lemma handleQuantityConfirmationResponse_larger_declined:
  "map_of (pendingConfirmations e) key = Some c \<Longrightarrow> state c = AWAITING_LARGER \<Longrightarrow>
   declinedPartialFills (handleQuantityConfirmationResponse key acc q e)
     \<subseteq> insert key (declinedPartialFills e)"
  by (auto simp: handleQuantityConfirmationResponse_def Let_def)

lemma handleQuantityConfirmationResponse_closed:
  assumes "declinedClosed e"
  shows "declinedClosed (handleQuantityConfirmationResponse key acc q e)"
proof (cases "map_of (pendingConfirmations e) key")
  case None
  then show ?thesis using assms by (simp add: handleQuantityConfirmationResponse_def)
next
  case (Some c)
  with assms have fresh: "key \<notin> declinedPartialFills e"
    by (auto simp: declinedClosed_def)
  show ?thesis
  proof (cases "state c")
    case AWAITING_SMALLER
    show ?thesis
      unfolding declinedClosed_def
    proof (intro allI impI)
      fix k
      assume "k \<in> declinedPartialFills (handleQuantityConfirmationResponse key acc q e)"
      then have k: "k \<in> declinedPartialFills e"
        by (simp add: handleQuantityConfirmationResponse_smaller_declined [OF Some AWAITING_SMALLER])
      with fresh have "k \<noteq> key" by auto
      then show "map_of (pendingConfirmations (handleQuantityConfirmationResponse key acc q e)) k = None"
        using assms k
        by (simp add: handleQuantityConfirmationResponse_smaller_pending [OF Some AWAITING_SMALLER]
              declinedClosed_def)
    qed
  next
    case AWAITING_LARGER
    show ?thesis
      unfolding declinedClosed_def
    proof (intro allI impI)
      fix k
      assume "k \<in> declinedPartialFills (handleQuantityConfirmationResponse key acc q e)"
      then have "k = key \<or> k \<in> declinedPartialFills e"
        using handleQuantityConfirmationResponse_larger_declined [OF Some AWAITING_LARGER, of acc q]
        by auto
      then show "map_of (pendingConfirmations (handleQuantityConfirmationResponse key acc q e)) k = None"
        using assms
        by (auto simp: handleQuantityConfirmationResponse_larger_pending [OF Some AWAITING_LARGER]
              declinedClosed_def)
    qed
  qed
qed

lemma confirmationTimeout_declined:
  "k \<in> declinedPartialFills e \<Longrightarrow> k \<in> declinedPartialFills (confirmationTimeout key e)"
  by (simp add: confirmationTimeout_def handleQuantityConfirmationResponse_declined
        split: option.splits)

lemma confirmationTimeout_closed:
  "declinedClosed e \<Longrightarrow> declinedClosed (confirmationTimeout key e)"
  by (simp add: confirmationTimeout_def handleQuantityConfirmationResponse_closed split: option.splits)

lemma step_declined: "k \<in> declinedPartialFills e \<Longrightarrow> k \<in> declinedPartialFills (step e ev)"
  by (cases ev)
     (simp_all add: markActiveOrders_def handleQuantityConfirmationResponse_declined
        confirmationTimeout_declined)

lemma step_closed: "declinedClosed e \<Longrightarrow> declinedClosed (step e ev)"
proof (cases ev)
  case (QuantityResponse key acc q)
  assume "declinedClosed e"
  then show ?thesis using QuantityResponse by (simp add: handleQuantityConfirmationResponse_closed)
next
  case (ConfirmationTimeout key)
  assume "declinedClosed e"
  then show ?thesis using ConfirmationTimeout by (simp add: confirmationTimeout_closed)
qed (auto simp: declinedClosed_def processMatching_pending processAsset_pending
       handleNegotiationResponse_pending markActiveOrders_def)

lemma run_declined: "k \<in> declinedPartialFills e \<Longrightarrow> k \<in> declinedPartialFills (run e evs)"
  unfolding run_def by (induction evs arbitrary: e) (simp_all add: step_declined)

lemma run_closed: "declinedClosed e \<Longrightarrow> declinedClosed (run e evs)"
  unfolding run_def by (induction evs arbitrary: e) (simp_all add: step_closed)

lemma run_append: "run e (evs @ later) = run (run e evs) later"
  by (simp add: run_def)

lemma newEngine_closed: "declinedClosed (newEngine db)"
  by (simp add: declinedClosed_def newEngine_def)

text \<open>
  C2. Once a key is in the declined set of an engine that started from the constructor's
  state, it has no pending confirmation after any further events (ticks, forced passes,
  responses, timers, writes to the store), and a per-asset matching pass run in any such later
  state opens none for it, whatever orders the pass is given.
\<close>

theorem declined_never_reopened:
  assumes "key \<in> declinedPartialFills (run (newEngine db) evs)"
  shows "map_of (pendingConfirmations (run (newEngine db) (evs @ later))) key = None \<and>
         map_of (pendingConfirmations
                   (processAssetMatching a orders (run (newEngine db) (evs @ later)))) key = None"
proof -
  let ?e = "run (newEngine db) (evs @ later)"
  have closed: "declinedClosed ?e"
    by (simp add: run_closed newEngine_closed)
  have "key \<in> declinedPartialFills ?e"
    using assms by (simp add: run_append run_declined)
  then show ?thesis
    using closed by (simp add: processAssetMatching_pending declinedClosed_def)
qed

text \<open>
  Scenario 4 of the specification: both sides decline; the next tick sees the same book.
\<close>

theorem declined_never_reopened_witness:
  "map_of (pendingConfirmations (run (newEngine (store book3))
      ([Tick 1000 (Some book3), QuantityResponse ''GOLD:B3:O3'' False None,
        ConfirmationTimeout ''GOLD:B3:O3''] @ [Tick 200000 (Some book3)]))) ''GOLD:B3:O3'' = None \<and>
   map_of (pendingConfirmations (processAssetMatching ''GOLD'' book3
      (run (newEngine (store book3))
        ([Tick 1000 (Some book3), QuantityResponse ''GOLD:B3:O3'' False None,
          ConfirmationTimeout ''GOLD:B3:O3''] @ [Tick 200000 (Some book3)])))) ''GOLD:B3:O3'' = None"
proof -
  have "''GOLD:B3:O3'' \<in> declinedPartialFills (run (newEngine (store book3))
          [Tick 1000 (Some book3), QuantityResponse ''GOLD:B3:O3'' False None,
           ConfirmationTimeout ''GOLD:B3:O3''])"
    by (simp add: engine_defs)
  then show ?thesis
    by (rule declined_never_reopened)
qed


text \<open>The first tick on that book does open the confirmation.\<close>

lemma first_tick_opens_confirmation:
  "map_option state (map_of (pendingConfirmations
      (run (newEngine (store book3)) [Tick 1000 (Some book3)])) ''GOLD:B3:O3'') = Some AWAITING_SMALLER"
  by (simp add: engine_defs)


section \<open>Quantity confirmation: the smaller party answers\<close>

lemma opened3_pending:
  "map_of (pendingConfirmations opened3) ''GOLD:B3:O3'' =
     Some \<lparr>confirmationKey = ''GOLD:B3:O3'', conf_asset = ''GOLD'',
           bidOrder = placed ''B3'' BID 1000 2 ''ann'', offerOrder = placed ''O3'' OFFER 1000 5 ''bob'',
           smallerParty = BUYER, smallerQuantity = 2, largerQuantity = 5, additionalQuantity = 3,
           conf_timeout = Some 60000, state = AWAITING_SMALLER, smallerPartyResponse = None\<rparr>"
  by (simp add: opened3_def engine_defs)

lemma opened3_db: "db_orders opened3 = store book3"
  by (simp add: opened3_def engine_defs)

lemma smallerAccepts_commits:
  assumes "map_of (pendingConfirmations e) key = Some c" and "state c = AWAITING_SMALLER"
    and "n \<noteq> 0" and "int32 n"
    and "db_orders e (if smallerParty c = BUYER then oid (bidOrder c) else oid (offerOrder c))
           = Some row"
    and "((db_orders e)
           ((if smallerParty c = BUYER then oid (bidOrder c) else oid (offerOrder c)) \<mapsto>
            row\<lparr>amount := n, remaining := n\<rparr>)) (oid (bidOrder c)) = Some ub"
    and "((db_orders e)
           ((if smallerParty c = BUYER then oid (bidOrder c) else oid (offerOrder c)) \<mapsto>
            row\<lparr>amount := n, remaining := n\<rparr>)) (oid (offerOrder c)) = Some uo"
  shows "handleQuantityConfirmationResponse key True (Some (of_int n)) e =
           executeMatch ub uo
             (e\<lparr>db_orders := (db_orders e)
                  ((if smallerParty c = BUYER then oid (bidOrder c) else oid (offerOrder c)) \<mapsto>
                   row\<lparr>amount := n, remaining := n\<rparr>),
                pendingConfirmations := AList.delete key (pendingConfirmations e)\<rparr>)"
proof (cases "smallerParty c")
  case BUYER
  then show ?thesis using assms
    by (auto simp: handleQuantityConfirmationResponse_def smallerAccepts_def isInt32_def Let_def
          setConfirmation_def deleteConfirmation_def delete_update_same)
next
  case SELLER
  then show ?thesis using assms
    by (auto simp: handleQuantityConfirmationResponse_def smallerAccepts_def isInt32_def Let_def
          setConfirmation_def deleteConfirmation_def delete_update_same)
qed

text \<open>
  C3. A confirmation awaits the smaller party, and the response accepts with a quantity
  \<open>n\<close>, a 32-bit integer other than \<open>0\<close>; both orders are rows of the store, each kept under
  its identifier. Then the row of the smaller side gets \<open>amount\<close> and \<open>remaining\<close> equal to
  \<open>n\<close>, both orders are read back from the store so updated, the confirmation is removed, and
  the commit runs on the two rows read back, not on the orders that the confirmation holds:
  when the store takes the numbers of the commit, one trade is appended, of the smaller of the
  two \<open>remaining\<close> values read back, at the price of the offer read back, between the two
  orders read back, and the two rows lose that amount; otherwise no trade is appended.
\<close>

theorem smaller_accepts_with_quantity:
  assumes "map_of (pendingConfirmations e) key = Some c" and "state c = AWAITING_SMALLER"
    and "n \<noteq> 0" and "int32 n"
    and "db_orders e (oid (bidOrder c)) = Some brow" and "oid brow = oid (bidOrder c)"
    and "db_orders e (oid (offerOrder c)) = Some orow" and "oid orow = oid (offerOrder c)"
  shows "\<exists>db' updatedBid updatedOffer.
           db' = (db_orders e)
                   ((if smallerParty c = BUYER then oid (bidOrder c) else oid (offerOrder c)) \<mapsto>
                    (if smallerParty c = BUYER then brow else orow)\<lparr>amount := n, remaining := n\<rparr>) \<and>
           db' (oid (bidOrder c)) = Some updatedBid \<and>
           db' (oid (offerOrder c)) = Some updatedOffer \<and>
           (if smallerParty c = BUYER
            then amount updatedBid = n \<and> remaining updatedBid = n
            else amount updatedOffer = n \<and> remaining updatedOffer = n) \<and>
           handleQuantityConfirmationResponse key True (Some (of_int n)) e =
             executeMatch updatedBid updatedOffer
               (e\<lparr>db_orders := db',
                  pendingConfirmations := AList.delete key (pendingConfirmations e)\<rparr>) \<and>
           map_of (pendingConfirmations
                     (handleQuantityConfirmationResponse key True (Some (of_int n)) e)) key = None \<and>
           (if fitsColumns updatedBid updatedOffer
            then \<exists>t. db_trades (handleQuantityConfirmationResponse key True (Some (of_int n)) e)
                        = db_trades e @ [t] \<and>
                      trade_amount t = min (remaining updatedBid) (remaining updatedOffer) \<and>
                      trade_price t = Number (price updatedOffer) \<and>
                      buyerOrderId t = oid updatedBid \<and> sellerOrderId t = oid updatedOffer
            else db_trades (handleQuantityConfirmationResponse key True (Some (of_int n)) e)
                   = db_trades e) \<and>
           (fitsColumns updatedBid updatedOffer \<and> oid (bidOrder c) \<noteq> oid (offerOrder c) \<longrightarrow>
              map_option remaining
                (db_orders (handleQuantityConfirmationResponse key True (Some (of_int n)) e)
                   (oid (bidOrder c)))
                = Some (remaining updatedBid - min (remaining updatedBid) (remaining updatedOffer)) \<and>
              map_option remaining
                (db_orders (handleQuantityConfirmationResponse key True (Some (of_int n)) e)
                   (oid (offerOrder c)))
                = Some (remaining updatedOffer - min (remaining updatedBid) (remaining updatedOffer)))"
proof -
  define target where
    "target = (if smallerParty c = BUYER then oid (bidOrder c) else oid (offerOrder c))"
  define row where "row = (if smallerParty c = BUYER then brow else orow)"
  define db' where "db' = (db_orders e)(target \<mapsto> row\<lparr>amount := n, remaining := n\<rparr>)"
  define e1 where
    "e1 = e\<lparr>db_orders := db', pendingConfirmations := AList.delete key (pendingConfirmations e)\<rparr>"
  have target_row: "db_orders e target = Some row"
    using assms(5,7) by (simp add: target_def row_def)
  obtain ub where ub: "db' (oid (bidOrder c)) = Some ub"
    using assms(5) by (cases "oid (bidOrder c) = target") (simp_all add: db'_def)
  obtain uo where uo: "db' (oid (offerOrder c)) = Some uo"
    using assms(7) by (cases "oid (offerOrder c) = target") (simp_all add: db'_def)
  have row_id: "oid row = target"
    using assms(6,8) by (simp add: row_def target_def)
  have id_ub: "oid ub = oid (bidOrder c)"
  proof (cases "oid (bidOrder c) = target")
    case True
    with ub have "ub = row\<lparr>amount := n, remaining := n\<rparr>"
      by (simp add: db'_def)
    then have "oid ub = oid row"
      by simp
    then show ?thesis
      by (simp only: row_id True)
  next
    case False
    with ub assms(5) have "ub = brow"
      by (simp add: db'_def)
    then show ?thesis
      by (simp only: assms(6))
  qed
  have id_uo: "oid uo = oid (offerOrder c)"
  proof (cases "oid (offerOrder c) = target")
    case True
    with uo have "uo = row\<lparr>amount := n, remaining := n\<rparr>"
      by (simp add: db'_def)
    then have "oid uo = oid row"
      by simp
    then show ?thesis
      by (simp only: row_id True)
  next
    case False
    with uo assms(7) have "uo = orow"
      by (simp add: db'_def)
    then show ?thesis
      by (simp only: assms(8))
  qed
  note ids = id_ub id_uo
  have sized: "if smallerParty c = BUYER then amount ub = n \<and> remaining ub = n
               else amount uo = n \<and> remaining uo = n"
    using ub uo by (auto simp: db'_def target_def split: if_splits)
  have handler: "handleQuantityConfirmationResponse key True (Some (of_int n)) e
                   = executeMatch ub uo e1"
    using smallerAccepts_commits [OF assms(1-4), of row ub uo] target_row ub uo
    by (simp add: target_def db'_def e1_def)
  have stored: "db_orders e1 (oid ub) = Some ub" "db_orders e1 (oid uo) = Some uo"
    "db_trades e1 = db_trades e"
    using ub uo ids by (simp_all add: e1_def)
  have removed: "map_of (pendingConfirmations (executeMatch ub uo e1)) key = None"
    by (simp add: e1_def delete_conv')
  have trades: "if fitsColumns ub uo
     then \<exists>t. db_trades (executeMatch ub uo e1) = db_trades e @ [t] \<and>
              trade_amount t = min (remaining ub) (remaining uo) \<and>
              trade_price t = Number (price uo) \<and>
              buyerOrderId t = oid ub \<and> sellerOrderId t = oid uo
     else db_trades (executeMatch ub uo e1) = db_trades e"
    by (simp add: executeMatch_trades stored newTrade_def)
  have after: "fitsColumns ub uo \<and> oid (bidOrder c) \<noteq> oid (offerOrder c) \<longrightarrow>
      map_option remaining (db_orders (executeMatch ub uo e1) (oid (bidOrder c)))
        = Some (remaining ub - min (remaining ub) (remaining uo)) \<and>
      map_option remaining (db_orders (executeMatch ub uo e1) (oid (offerOrder c)))
        = Some (remaining uo - min (remaining ub) (remaining uo))"
  proof (intro impI, elim conjE)
    assume fits: "fitsColumns ub uo" and "oid (bidOrder c) \<noteq> oid (offerOrder c)"
    then have "oid ub \<noteq> oid uo"
      by (simp add: ids)
    from executeMatch_rows [OF fits stored(1,2) this] show
      "map_option remaining (db_orders (executeMatch ub uo e1) (oid (bidOrder c)))
        = Some (remaining ub - min (remaining ub) (remaining uo)) \<and>
       map_option remaining (db_orders (executeMatch ub uo e1) (oid (offerOrder c)))
        = Some (remaining uo - min (remaining ub) (remaining uo))"
      using \<open>oid ub \<noteq> oid uo\<close> by (simp add: ids fill_def)
  qed
  have dbeq: "db' = (db_orders e)
                   ((if smallerParty c = BUYER then oid (bidOrder c) else oid (offerOrder c)) \<mapsto>
                    (if smallerParty c = BUYER then brow else orow)\<lparr>amount := n, remaining := n\<rparr>)"
    by (simp add: db'_def target_def row_def)
  show ?thesis
  proof (intro exI conjI)
    show "db' = (db_orders e)
                   ((if smallerParty c = BUYER then oid (bidOrder c) else oid (offerOrder c)) \<mapsto>
                    (if smallerParty c = BUYER then brow else orow)\<lparr>amount := n, remaining := n\<rparr>)"
      by (fact dbeq)
    show "db' (oid (bidOrder c)) = Some ub"
      by (fact ub)
    show "db' (oid (offerOrder c)) = Some uo"
      by (fact uo)
    show "if smallerParty c = BUYER then amount ub = n \<and> remaining ub = n
          else amount uo = n \<and> remaining uo = n"
      by (fact sized)
    show "handleQuantityConfirmationResponse key True (Some (of_int n)) e =
            executeMatch ub uo
              (e\<lparr>db_orders := db',
                 pendingConfirmations := AList.delete key (pendingConfirmations e)\<rparr>)"
      using handler by (simp only: e1_def)
    show "map_of (pendingConfirmations
                    (handleQuantityConfirmationResponse key True (Some (of_int n)) e)) key = None"
      using removed by (simp only: handler)
    show "if fitsColumns ub uo
          then \<exists>t. db_trades (handleQuantityConfirmationResponse key True (Some (of_int n)) e)
                      = db_trades e @ [t] \<and>
                    trade_amount t = min (remaining ub) (remaining uo) \<and>
                    trade_price t = Number (price uo) \<and>
                    buyerOrderId t = oid ub \<and> sellerOrderId t = oid uo
          else db_trades (handleQuantityConfirmationResponse key True (Some (of_int n)) e)
                 = db_trades e"
      using trades by (simp only: handler)
    show "fitsColumns ub uo \<and> oid (bidOrder c) \<noteq> oid (offerOrder c) \<longrightarrow>
            map_option remaining
              (db_orders (handleQuantityConfirmationResponse key True (Some (of_int n)) e)
                 (oid (bidOrder c)))
              = Some (remaining ub - min (remaining ub) (remaining uo)) \<and>
            map_option remaining
              (db_orders (handleQuantityConfirmationResponse key True (Some (of_int n)) e)
                 (oid (offerOrder c)))
              = Some (remaining uo - min (remaining ub) (remaining uo))"
      using after by (simp only: handler)
  qed
qed


text \<open>Scenario 2 of the specification, on the book of scenario 3: the buyer takes 5 lots.\<close>

theorem smaller_accepts_with_quantity_witness:
  "handleQuantityConfirmationResponse ''GOLD:B3:O3'' True (Some 5) opened3 =
     executeMatch (placed ''B3'' BID 1000 5 ''ann'') (placed ''O3'' OFFER 1000 5 ''bob'')
       (opened3\<lparr>db_orders := store [placed ''B3'' BID 1000 5 ''ann'', placed ''O3'' OFFER 1000 5 ''bob''],
          pendingConfirmations := AList.delete ''GOLD:B3:O3'' (pendingConfirmations opened3)\<rparr>) \<and>
   map_of (pendingConfirmations (handleQuantityConfirmationResponse ''GOLD:B3:O3'' True (Some 5) opened3))
     ''GOLD:B3:O3'' = None \<and>
   map trade_amount (db_trades (handleQuantityConfirmationResponse ''GOLD:B3:O3'' True (Some 5) opened3))
     = [5] \<and>
   map_option remaining
     (db_orders (handleQuantityConfirmationResponse ''GOLD:B3:O3'' True (Some 5) opened3) ''B3'') = Some 0 \<and>
   map_option remaining
     (db_orders (handleQuantityConfirmationResponse ''GOLD:B3:O3'' True (Some 5) opened3) ''O3'') = Some 0"
proof -
  have fits: "fitsColumns (placed ''B3'' BID 1000 5 ''ann'') (placed ''O3'' OFFER 1000 5 ''bob'')"
    by (simp add: fitsColumns_def int32_def placed_def Number_1000 decimal10_2_small commissions_fit)
  have trades: "db_trades opened3 = []"
    by (simp add: opened3_def engine_defs)
  show ?thesis
    using smaller_accepts_with_quantity [OF opened3_pending, of 5
        "placed ''B3'' BID 1000 2 ''ann''" "placed ''O3'' OFFER 1000 5 ''bob''"] fits trades
    by (auto simp: opened3_db store_def book3_def placed_def delete_conv' int32_def)
qed

text \<open>
  C10. A confirmation awaits the smaller party, and the response accepts without a quantity
  or with the quantity \<open>0\<close>. No order and no trade is written; the confirmation now awaits
  the larger party with a timer of 60 seconds, and the larger party is asked over the realtime
  channel to approve a partial fill, and over WhatsApp too when the user has a row with a
  phone. The outcome is that of a decline, but for the recorded answer of the smaller party.
\<close>

theorem accept_without_quantity:
  assumes "map_of (pendingConfirmations e) key = Some c" and "state c = AWAITING_SMALLER"
    and "q = None \<or> q = Some 0"
  shows "db_orders (handleQuantityConfirmationResponse key True q e) = db_orders e \<and>
         db_trades (handleQuantityConfirmationResponse key True q e) = db_trades e \<and>
         map_of (pendingConfirmations (handleQuantityConfirmationResponse key True q e)) key =
           Some (c\<lparr>smallerPartyResponse := Some True, state := AWAITING_LARGER,
                   conf_timeout := Some 60000\<rparr>) \<and>
         (\<exists>payload.
            effects (handleQuantityConfirmationResponse key True q e) =
              effects e @
              [NotifyUser (userId (if smallerParty c = BUYER then offerOrder c else bidOrder c))
                 ''quantity:partial_fill_approval'' payload] @
              (case db_users e (userId (if smallerParty c = BUYER then offerOrder c else bidOrder c)) of
                 None \<Rightarrow> []
               | Some u \<Rightarrow>
                   if phone u \<noteq> [] then [WhatsApp (phone u) ''PARTIAL FILL APPROVAL NEEDED'']
                   else [])) \<and>
         handleQuantityConfirmationResponse key True q e =
           setConfirmation key
             (c\<lparr>smallerPartyResponse := Some True, state := AWAITING_LARGER,
                 conf_timeout := Some 60000\<rparr>)
             (handleQuantityConfirmationResponse key False q' e)"
  using assms
  by (auto simp: handleQuantityConfirmationResponse_def askLarger_def Let_def
        setConfirmation_def notifyUserViaWhatsApp_def emit_def update_conv'
        intro!: engine.equality split: option.splits)

theorem accept_without_quantity_witness:
  "db_orders (handleQuantityConfirmationResponse ''GOLD:B3:O3'' True (Some 0) (opened3\<lparr>db_users := phones\<rparr>))
     = db_orders opened3 \<and>
   db_trades (handleQuantityConfirmationResponse ''GOLD:B3:O3'' True (Some 0) (opened3\<lparr>db_users := phones\<rparr>))
     = db_trades opened3 \<and>
   map_option state (map_of (pendingConfirmations
       (handleQuantityConfirmationResponse ''GOLD:B3:O3'' True (Some 0) (opened3\<lparr>db_users := phones\<rparr>)))
       ''GOLD:B3:O3'') = Some AWAITING_LARGER \<and>
   map_option conf_timeout (map_of (pendingConfirmations
       (handleQuantityConfirmationResponse ''GOLD:B3:O3'' True (Some 0) (opened3\<lparr>db_users := phones\<rparr>)))
       ''GOLD:B3:O3'') = Some (Some 60000) \<and>
   (\<exists>payload.
      effects (handleQuantityConfirmationResponse ''GOLD:B3:O3'' True (Some 0) (opened3\<lparr>db_users := phones\<rparr>))
        = effects opened3 @
          [NotifyUser ''bob'' ''quantity:partial_fill_approval'' payload,
           WhatsApp ''+15550002'' ''PARTIAL FILL APPROVAL NEEDED''])"
proof -
  have pending: "map_of (pendingConfirmations (opened3\<lparr>db_users := phones\<rparr>)) ''GOLD:B3:O3'' =
     Some \<lparr>confirmationKey = ''GOLD:B3:O3'', conf_asset = ''GOLD'',
           bidOrder = placed ''B3'' BID 1000 2 ''ann'', offerOrder = placed ''O3'' OFFER 1000 5 ''bob'',
           smallerParty = BUYER, smallerQuantity = 2, largerQuantity = 5, additionalQuantity = 3,
           conf_timeout = Some 60000, state = AWAITING_SMALLER, smallerPartyResponse = None\<rparr>"
    using opened3_pending by simp
  note fact = accept_without_quantity [OF pending, of "Some 0" None, simplified]
  show ?thesis
    using fact [THEN conjunct1] fact [THEN conjunct2, THEN conjunct1]
      fact [THEN conjunct2, THEN conjunct2, THEN conjunct1]
      fact [THEN conjunct2, THEN conjunct2, THEN conjunct2, THEN conjunct1]
    by (simp add: phones_def placed_def)
qed


section \<open>The tick and the flag of active orders\<close>

lemma getActiveOrders_redisSet [simp]:
  "fst (getActiveOrders now fetched (redisSet k v ttl e)) = fst (getActiveOrders now fetched e)"
  by (simp add: getActiveOrders_def split: option.splits)

lemma redisSet_redis [simp]: "redis (redisSet k v ttl e) = (redis e)(k \<mapsto> (v, ttl))"
  by (simp add: redisSet_def)

text \<open>
  C4, as stated, fails when the flag reads true: the tick loads the snapshot, finds no
  active order and ends, and the flag is still true.
\<close>

theorem processMatching_flag_counterexample:
  "redis (processMatching 1000 (Some []) (markActiveOrders (newEngine Map.empty)))
     ''matching:has_active_orders'' \<noteq> Some (RBool False, 300)"
  by (simp add: engine_defs)

text \<open>
  C4, amended. Every tick loads the snapshot through \<open>getActiveOrders\<close>, whatever the flag
  reads. When the flag reads missing or false, it is written from the count of the snapshot:
  true or false, with an expiry of 300 seconds. When the flag reads true, the tick leaves it
  as it is. When the snapshot is empty, the tick ends without matching: the engine is the one
  after the heartbeat and the load, with the flag written false in the first case.
\<close>

theorem processMatching_flag:
  "(\<not> truthy (redis e ''matching:has_active_orders'') \<longrightarrow>
      redis (processMatching now fetched e) ''matching:has_active_orders'' =
        Some (RBool (fst (getActiveOrders now fetched e) \<noteq> []), 300)) \<and>
   (truthy (redis e ''matching:has_active_orders'') \<longrightarrow>
      redis (processMatching now fetched e) ''matching:has_active_orders'' =
        redis e ''matching:has_active_orders'') \<and>
   (fst (getActiveOrders now fetched e) = [] \<longrightarrow>
      processMatching now fetched e =
        (let e2 = snd (getActiveOrders now fetched (redisSet ''matching:last_run'' (RTime now) 600 e))
         in if truthy (redis e ''matching:has_active_orders'') then e2
            else redisSet ''matching:has_active_orders'' (RBool False) 300 e2))"
  by (simp add: processMatching_def Let_def)

theorem processMatching_flag_witness:
  "redis (processMatching 1000 (Some []) (newEngine Map.empty)) ''matching:has_active_orders''
     = Some (RBool False, 300) \<and>
   redis (processMatching 1000 (Some book3) (newEngine (store book3))) ''matching:has_active_orders''
     = Some (RBool True, 300) \<and>
   redis (processMatching 1000 (Some []) (markActiveOrders (newEngine Map.empty)))
     ''matching:has_active_orders'' = Some (RBool True, 300) \<and>
   processMatching 1000 (Some []) (newEngine Map.empty) =
     (newEngine Map.empty)
       \<lparr>lastCacheTime := 1000,
        redis := [''matching:last_run'' \<mapsto> (RTime 1000, 600),
                  ''matching:has_active_orders'' \<mapsto> (RBool False, 300)]\<rparr>"
  using processMatching_flag [of "newEngine Map.empty" 1000 "Some []"]
    processMatching_flag [of "newEngine (store book3)" 1000 "Some book3"]
    processMatching_flag [of "markActiveOrders (newEngine Map.empty)" 1000 "Some []"]
  by (simp add: newEngine_def truthy_def getActiveOrders_def markActiveOrders_def redisSet_def
        book3_def cacheValidityMs_def)


section \<open>Crossing book\<close>

text \<open>
  C5. On a book with 10.00 bid and 9.00 offered, the per-asset pass commits no trade and
  writes no order; it opens a negotiation instead, the offer's turn, with a timer of 30
  seconds.
\<close>

theorem crossing_book_negotiates:
  "db_trades (processAssetMatching ''GOLD'' crossed (newEngine (store crossed))) = [] \<and>
   db_orders (processAssetMatching ''GOLD'' crossed (newEngine (store crossed))) = store crossed \<and>
   negotiationState (processAssetMatching ''GOLD'' crossed (newEngine (store crossed))) ''GOLD'' =
     Some \<lparr>bestBid = placed ''B5'' BID 1000 1 ''ann'', bestOffer = placed ''O5'' OFFER 900 1 ''bob'',
           turn = OFFER, timeout = Some 30000\<rparr>"
  by (simp add: engine_defs)


section \<open>Negotiation response from the wrong side\<close>

lemma negotiating5_state:
  "negotiationState negotiating5 =
     [''GOLD'' \<mapsto> \<lparr>bestBid = placed ''B4'' BID 950 1 ''ann'', bestOffer = placed ''O4'' OFFER 1000 1 ''bob'',
                   turn = OFFER, timeout = Some 30000\<rparr>]"
  by (simp add: negotiating5_def engine_defs)

text \<open>
  C6. In the negotiation of scenario 5 it is the offer's turn, and the offer is bob's. A pass
  sent by ann destroys the negotiation state, and an improvement without a price sent by ann
  switches the turn to the bid.
\<close>

theorem wrong_side_response_not_ignored:
  "map_option turn (negotiationState negotiating5 ''GOLD'') = Some OFFER \<and>
   map_option (\<lambda>st. userId (bestOffer st)) (negotiationState negotiating5 ''GOLD'') = Some ''bob'' \<and>
   negotiationState (handleNegotiationResponse ''GOLD'' ''ann'' False None 2000 None negotiating5) ''GOLD''
     = None \<and>
   map_option turn
     (negotiationState (handleNegotiationResponse ''GOLD'' ''ann'' True None 2000 None negotiating5) ''GOLD'')
     = Some BID"
  by (simp add: negotiating5_state handleNegotiationResponse_def setNegotiation_def
        notifyNegotiation_def emit_def marketUpdate_def placed_def Let_def)


section \<open>Pending confirmations of a user\<close>

lemma asked3_pending:
  "pendingConfirmations asked3 =
     [(''GOLD:B3:O3'',
       \<lparr>confirmationKey = ''GOLD:B3:O3'', conf_asset = ''GOLD'',
        bidOrder = placed ''B3'' BID 1000 2 ''ann'', offerOrder = placed ''O3'' OFFER 1000 5 ''bob'',
        smallerParty = BUYER, smallerQuantity = 2, largerQuantity = 5, additionalQuantity = 3,
        conf_timeout = Some 60000, state = AWAITING_LARGER, smallerPartyResponse = Some False\<rparr>)]"
  by (simp add: asked3_def opened3_def engine_defs)

text \<open>
  C8. After the buyer ann has declined, the confirmation awaits the larger party, the
  seller bob. The lookup returns nothing for bob, and returns the confirmation for ann.
\<close>

theorem awaited_larger_party_not_listed:
  "map_option state (map_of (pendingConfirmations asked3) ''GOLD:B3:O3'') = Some AWAITING_LARGER \<and>
   map_option awaitedUser (map_of (pendingConfirmations asked3) ''GOLD:B3:O3'') = Some ''bob'' \<and>
   getUserPendingConfirmations ''bob'' asked3 = [] \<and>
   map fst (getUserPendingConfirmations ''ann'' asked3) = [''GOLD:B3:O3'']"
  by (simp add: asked3_pending getUserPendingConfirmations_def isUserInvolved_def awaitedUser_def
        placed_def)

end
